theory Spec2Isabelle
  imports Complex_Main "HOL-Library.AList"
begin

section \<open>Numbers, log records and exceptions\<close>

text \<open>
  The value of a Python or NumPy float: a finite number (every double is a rational),
  not-a-number, or an infinity. A comparison with NaN is false, and \<^verbatim>\<open>a != b\<close> is true
  when one side is NaN.
\<close>

datatype float = Fin rat | NaN | PInf | NInf

definition isnan :: "float \<Rightarrow> bool" where
  "isnan x = (x = NaN)"

definition fne :: "float \<Rightarrow> float \<Rightarrow> bool" where
  "fne a b = (isnan a \<or> isnan b \<or> a \<noteq> b)"

datatype level = INFO | WARNING | ERROR

text \<open>
  A log record: its level and its message. Values interpolated into a message that are not
  strings of the model (exception texts, lists, coordinate systems) are left out; the
  record of \<^verbatim>\<open>logger.exception\<close> is an error record with an empty message.
\<close>

type_synonym log = "(level \<times> string) list"

datatype exn = FileNotFoundError | ValueError | TypeError | KeyError | OverflowError | RasterioIOError

text \<open>
  The floating-point arithmetic of the platform and of the libraries is a parameter of the
  model. What the operations return (with their rounding errors, their infinities and
  their NaN) is not fixed here, only where the program calls them and on what:
  \<^item> \<open>fl_add\<close>, \<open>fl_mul\<close>, \<open>fl_div\<close>: \<^verbatim>\<open>+\<close>, \<^verbatim>\<open>*\<close> and \<^verbatim>\<open>/\<close> on floats and on NumPy arrays;
  \<^item> \<open>fl_pow\<close>: \<^verbatim>\<open>k ** j\<close> of a Python float and an int, which raises OverflowError when
    the result is out of range;
  \<^item> \<open>fl_sum\<close>: the builtin \<^verbatim>\<open>sum\<close> on a list of floats that is not empty;
  \<^item> \<open>fl_round\<close>: \<^verbatim>\<open>round(x, decimals)\<close> on a \<^verbatim>\<open>numpy.float64\<close>;
  \<^item> \<open>pd_mean\<close>: \<^verbatim>\<open>Series.mean()\<close> of pandas on the cells of a column, which skips NaN;
  \<^item> \<open>np_min\<close>, \<open>np_max\<close>, \<open>np_mean\<close>, \<open>np_median\<close>: the reductions of NumPy on a sample.
\<close>

record arith =
  fl_add :: "float \<Rightarrow> float \<Rightarrow> float"
  fl_mul :: "float \<Rightarrow> float \<Rightarrow> float"
  fl_div :: "float \<Rightarrow> float \<Rightarrow> float"
  fl_pow :: "float \<Rightarrow> int \<Rightarrow> exn + float"
  fl_sum :: "float list \<Rightarrow> float"
  fl_round :: "float \<Rightarrow> int \<Rightarrow> float"
  pd_mean :: "float list \<Rightarrow> float"
  np_min :: "float list \<Rightarrow> float"
  np_max :: "float list \<Rightarrow> float"
  np_mean :: "float list \<Rightarrow> float"
  np_median :: "float list \<Rightarrow> float"

section \<open>Tables\<close>

datatype datetime = Timestamp int | NaT

text \<open>
  A column of a pandas DataFrame, by dtype: numbers (NaN for a missing cell), objects
  (strings, NaN for a missing cell) and datetimes. A column maps the row labels
  \<open>0..<nrows\<close> to cells.
\<close>

datatype series =
    FloatCol "nat \<Rightarrow> float"
  | ObjCol "nat \<Rightarrow> string option"
  | DateCol "nat \<Rightarrow> datetime"

datatype cell = CFloat float | CObj "string option" | CDate datetime

record frame =
  nrows :: nat
  cols :: "(string \<times> series) list"

text \<open>The CSV files of the file system, by path, each held as the table \<^verbatim>\<open>pd.read_csv\<close> gives.\<close>

type_synonym csv_fs = "string \<rightharpoonup> frame"

definition columns :: "frame \<Rightarrow> string list" where
  "columns df = map fst (cols df)"

text \<open>\<^verbatim>\<open>df[c] = s\<close>: replaces the column in place, or appends a new last column.\<close>

definition set_col :: "frame \<Rightarrow> string \<Rightarrow> series \<Rightarrow> frame" where
  "set_col df c s = df\<lparr>cols := AList.update c s (cols df)\<rparr>"

fun cell_at :: "series \<Rightarrow> nat \<Rightarrow> cell" where
  "cell_at (FloatCol f) i = CFloat (f i)"
| "cell_at (ObjCol g) i = CObj (g i)"
| "cell_at (DateCol d) i = CDate (d i)"

text \<open>
  \<^verbatim>\<open>df.loc[i, c]\<close> read as a number. The loops read only a column of numbers whose mean
  has been computed, or the NAPI column they have created, so the other cases are not
  reached.
\<close>

definition floc :: "frame \<Rightarrow> nat \<Rightarrow> string \<Rightarrow> float" where
  "floc df i c = (case map_of (cols df) c of Some (FloatCol f) \<Rightarrow> f i | _ \<Rightarrow> NaN)"

text \<open>\<^verbatim>\<open>df.loc[i, c] = v\<close> for a number \<open>v\<close> in a float column.\<close>

definition set_floc :: "frame \<Rightarrow> nat \<Rightarrow> string \<Rightarrow> float \<Rightarrow> frame" where
  "set_floc df i c v =
     (case map_of (cols df) c of
        Some (FloatCol f) \<Rightarrow> set_col df c (FloatCol (f(i := v)))
      | _ \<Rightarrow> df)"

text \<open>\<^verbatim>\<open>df.loc[i, c] = v\<close> for a string or NaN \<open>v\<close> in an object column.\<close>

definition set_oloc :: "frame \<Rightarrow> nat \<Rightarrow> string \<Rightarrow> string option \<Rightarrow> frame" where
  "set_oloc df i c v =
     (case map_of (cols df) c of
        Some (ObjCol g) \<Rightarrow> set_col df c (ObjCol (g(i := v)))
      | _ \<Rightarrow> df)"

definition read_csv :: "csv_fs \<Rightarrow> string \<Rightarrow> exn + frame" where
  "read_csv fs filepath = (case fs filepath of None \<Rightarrow> Inl FileNotFoundError | Some df \<Rightarrow> Inr df)"

text \<open>
  \<^verbatim>\<open>pd.to_datetime(column, format=fmt)\<close>. The cell parser of the library is a parameter
  \<open>parse\<close>: from the format and a cell it gives a timestamp or NaT, or \<open>None\<close> where the
  library raises. One cell that does not parse makes the whole call raise.
\<close>

definition to_datetime ::
  "(string option \<Rightarrow> cell \<Rightarrow> datetime option) \<Rightarrow> string option \<Rightarrow> nat \<Rightarrow> series \<Rightarrow> exn + (nat \<Rightarrow> datetime)" where
  "to_datetime parse fmt n s =
     (if list_all (\<lambda>i. parse fmt (cell_at s i) \<noteq> None) [0..<n]
      then Inr (\<lambda>i. case parse fmt (cell_at s i) of Some d \<Rightarrow> d | None \<Rightarrow> NaT)
      else Inl ValueError)"

fun stamp :: "datetime \<Rightarrow> int" where
  "stamp (Timestamp t) = t"
| "stamp NaT = 0"

text \<open>
  The row order of \<^verbatim>\<open>df.sort_values(by=date_field)\<close>: the rows with a timestamp in
  ascending order, then the NaT rows. Rows with equal dates keep their order here (pandas
  leaves the order of ties open).
\<close>

definition argsort :: "nat \<Rightarrow> (nat \<Rightarrow> datetime) \<Rightarrow> nat list" where
  "argsort n d =
     sort_key (\<lambda>i. stamp (d i)) (filter (\<lambda>i. d i \<noteq> NaT) [0..<n]) @ filter (\<lambda>i. d i = NaT) [0..<n]"

fun reindex :: "nat list \<Rightarrow> series \<Rightarrow> series" where
  "reindex p (FloatCol f) = FloatCol (\<lambda>i. if i < length p then f (p ! i) else NaN)"
| "reindex p (ObjCol g) = ObjCol (\<lambda>i. if i < length p then g (p ! i) else None)"
| "reindex p (DateCol d) = DateCol (\<lambda>i. if i < length p then d (p ! i) else NaT)"

text \<open>\<^verbatim>\<open>df.sort_values(by=..., inplace=True)\<close> followed by \<^verbatim>\<open>df.reset_index(drop=True)\<close>.\<close>

definition sort_values :: "frame \<Rightarrow> (nat \<Rightarrow> datetime) \<Rightarrow> frame" where
  "sort_values df d =
     df\<lparr>cols := map (\<lambda>(c, s). (c, reindex (argsort (nrows df) d) s)) (cols df)\<rparr>"

text \<open>
  \<^verbatim>\<open>df[c].mean()\<close> of a column of numbers or of objects. A column of strings raises,
  unless the table has no row. (The mean of a datetime column is a timestamp;
  \<open>napi_body\<close> treats that column itself.)
\<close>

definition series_mean :: "arith \<Rightarrow> nat \<Rightarrow> series \<Rightarrow> exn + float" where
  "series_mean ar n s =
     (case s of
        FloatCol f \<Rightarrow> Inr (pd_mean ar (map f [0..<n]))
      | ObjCol g \<Rightarrow> if n = 0 then Inr (pd_mean ar []) else Inl TypeError
      | DateCol d \<Rightarrow> Inl TypeError)"

section \<open>The antecedent index: \<^verbatim>\<open>calculate_napi\<close> of napi.py\<close>

definition date_format :: "string \<Rightarrow> string option" where
  "date_format resolution =
     (if resolution = ''daily'' then Some ''%Y-%m-%d''
      else if resolution = ''monthly'' then Some ''%Y-%m''
      else None)"

text \<open>
  The list \<^verbatim>\<open>[decay_constant**j for j in range(1, ante_days + 1)]\<close>: the powers in the
  order of \<open>j\<close>, or the exception of the first power that raises.
\<close>

fun powers :: "arith \<Rightarrow> float \<Rightarrow> int list \<Rightarrow> exn + float list" where
  "powers ar decay_constant [] = Inr []"
| "powers ar decay_constant (j # js) =
     (case fl_pow ar decay_constant j of
        Inl e \<Rightarrow> Inl e
      | Inr w \<Rightarrow> (case powers ar decay_constant js of Inl e \<Rightarrow> Inl e | Inr ws \<Rightarrow> Inr (w # ws)))"

text \<open>The builtin \<^verbatim>\<open>sum\<close>: the integer 0 on the empty list.\<close>

definition py_sum :: "arith \<Rightarrow> float list \<Rightarrow> float" where
  "py_sum ar xs = (if xs = [] then Fin 0 else fl_sum ar xs)"

text \<open>\<^verbatim>\<open>sum([decay_constant**j for j in range(1, ante_days + 1)])\<close>\<close>

definition napi_denominator :: "arith \<Rightarrow> float \<Rightarrow> int \<Rightarrow> exn + float" where
  "napi_denominator ar decay_constant ante_days =
     (case powers ar decay_constant [1..ante_days] of Inl e \<Rightarrow> Inl e | Inr ws \<Rightarrow> Inr (py_sum ar ws))"

text \<open>
  \<^verbatim>\<open>decay_constant**j\<close> inside the loops. The loops run after the denominator, which has
  computed the same powers without an exception, so the power is a value there.
\<close>

definition weight :: "arith \<Rightarrow> float \<Rightarrow> int \<Rightarrow> float" where
  "weight ar decay_constant j = (case fl_pow ar decay_constant j of Inr w \<Rightarrow> w | Inl e \<Rightarrow> NaN)"

text \<open>The inner loop over \<open>j\<close>, from \<open>numerator = 0.0\<close>; it reads the table as it is then.\<close>

definition napi_numerator :: "arith \<Rightarrow> frame \<Rightarrow> string \<Rightarrow> float \<Rightarrow> int \<Rightarrow> nat \<Rightarrow> float" where
  "napi_numerator ar df ppt_field decay_constant ante_days i =
     fold (\<lambda>j numerator.
             fl_add ar numerator (fl_mul ar (floc df (nat (int i - j)) ppt_field) (weight ar decay_constant j)))
       [1..ante_days] (Fin 0)"

text \<open>One pass of the loop \<^verbatim>\<open>for i in range(len(df))\<close> that fills the NAPI column.\<close>

definition napi_row ::
  "arith \<Rightarrow> string \<Rightarrow> float \<Rightarrow> int \<Rightarrow> int \<Rightarrow> float \<Rightarrow> float \<Rightarrow> nat \<Rightarrow> frame \<Rightarrow> frame" where
  "napi_row ar ppt_field decay_constant ante_days decimals mean_ppt denominator i df =
     (if ante_days \<le> int i
      then let numerator = napi_numerator ar df ppt_field decay_constant ante_days i
           in if fne (fl_mul ar mean_ppt denominator) (Fin 0)
              then set_floc df i ''NAPI''
                     (fl_round ar (fl_div ar numerator (fl_mul ar mean_ppt denominator)) decimals)
              else set_floc df i ''NAPI'' NaN
      else df)"

text \<open>
  The wetness label of one index value, \<open>None\<close> for NaN. For a finite value the difference
  to 1 and the comparisons are exact.
\<close>

definition condition_of :: "float \<Rightarrow> string option" where
  "condition_of napi_value =
     (case napi_value of
        NaN \<Rightarrow> None
      | Fin v \<Rightarrow>
          if \<bar>v - 1\<bar> < 1 / 10 ^ 6 then Some ''normal''
          else if 1 < v then Some ''wet''
          else if v < 1 then Some ''dry''
          else None
      | PInf \<Rightarrow> Some ''wet''
      | NInf \<Rightarrow> Some ''dry'')"

text \<open>One pass of the second loop, which fills the Conditions column.\<close>

definition conditions_row :: "nat \<Rightarrow> frame \<Rightarrow> frame" where
  "conditions_row i df = set_oloc df i ''Conditions'' (condition_of (floc df i ''NAPI''))"

definition msg_missing_columns :: "string \<Rightarrow> string \<Rightarrow> string" where
  "msg_missing_columns ppt_field date_field =
     ''Required columns '' @ [CHR 0x22] @ ppt_field @ [CHR 0x22] @ '' or '' @ [CHR 0x22] @ date_field @ [CHR 0x22]
       @ '' not found in the CSV.''"

definition msg_zero_mean :: string where
  "msg_zero_mean =
     ''Mean precipitation is zero. NAPI cannot be calculated due to division by zero. Assigning NaN to NAPI column.''"

definition msg_napi_complete :: "string \<Rightarrow> string" where
  "msg_napi_complete filepath =
     ''NAPI calculation complete. Data saved to '' @ [CHR 0x22] @ filepath @ [CHR 0x22] @ '' ''"

definition msg_napi_error :: string where
  "msg_napi_error = ''An error occurred during NAPI calculation: ''"

text \<open>The date column parsed, then the rows sorted by it and relabelled \<open>0..<nrows\<close>.\<close>

definition sorted_table ::
  "(string option \<Rightarrow> cell \<Rightarrow> datetime option) \<Rightarrow> frame \<Rightarrow> string \<Rightarrow> string \<Rightarrow> exn + frame" where
  "sorted_table parse df date_field resolution =
     (case map_of (cols df) date_field of
        None \<Rightarrow> Inl KeyError
      | Some dates \<Rightarrow>
          (case to_datetime parse (date_format resolution) (nrows df) dates of
             Inl e \<Rightarrow> Inl e
           | Inr d \<Rightarrow> Inr (sort_values (set_col df date_field (DateCol d)) d)))"

text \<open>The loop over the rows that fills the NAPI column, once the column holds NaN.\<close>

definition napi_loop ::
  "arith \<Rightarrow> string \<Rightarrow> float \<Rightarrow> int \<Rightarrow> int \<Rightarrow> float \<Rightarrow> float \<Rightarrow> frame \<Rightarrow> frame" where
  "napi_loop ar ppt_field decay_constant ante_days decimals mean_ppt denominator df =
     fold (napi_row ar ppt_field decay_constant ante_days decimals mean_ppt denominator) [0..<nrows df] df"

text \<open>
  \<^verbatim>\<open>df['Conditions'] = np.nan\<close>, the cast of the column to strings, and the loop over
  the rows that labels each of them.
\<close>

definition conditions_loop :: "frame \<Rightarrow> frame" where
  "conditions_loop df =
     (let df4 = set_col df ''Conditions'' (ObjCol (\<lambda>i. Some ''nan''))
      in fold conditions_row [0..<nrows df4] df4)"

text \<open>
  The body of the \<^verbatim>\<open>try\<close> block: \<open>Inl\<close> is an exception that leaves the block, \<open>Inr\<close>
  the returned flag with the file system and the log records written. In the order of the
  source: the table is read, the two columns are looked up, the dates are parsed, the rows
  sorted, the mean computed and tested, the NAPI column set to NaN, the denominator
  computed (a power may raise here), the two loops run and the table written.

  When the precipitation column is the date column, it holds datetimes by then: its mean is
  a timestamp, which is not zero, and the first row at or past the window raises TypeError
  at the product of a timestamp and a number; with no such row both loops run without
  reading the column.
\<close>

definition napi_body ::
  "arith \<Rightarrow> (string option \<Rightarrow> cell \<Rightarrow> datetime option) \<Rightarrow> csv_fs \<Rightarrow> string \<Rightarrow> float \<Rightarrow> int \<Rightarrow> string \<Rightarrow> string
     \<Rightarrow> string \<Rightarrow> int \<Rightarrow> exn + (bool \<times> csv_fs \<times> log)" where
  "napi_body ar parse fs filepath decay_constant ante_days ppt_field date_field resolution decimals =
     (case read_csv fs filepath of
        Inl e \<Rightarrow> Inl e
      | Inr df \<Rightarrow>
          if ppt_field \<notin> set (columns df) \<or> date_field \<notin> set (columns df)
          then Inr (False, fs, [(ERROR, msg_missing_columns ppt_field date_field)])
          else
            (case sorted_table parse df date_field resolution of
               Inl e \<Rightarrow> Inl e
             | Inr df1 \<Rightarrow>
                 (case map_of (cols df1) ppt_field of
                    None \<Rightarrow> Inl KeyError
                  | Some (DateCol d) \<Rightarrow>
                      (case napi_denominator ar decay_constant ante_days of
                         Inl e \<Rightarrow> Inl e
                       | Inr denominator \<Rightarrow>
                           if list_ex (\<lambda>i. ante_days \<le> int i) [0..<nrows df1]
                           then Inl TypeError
                           else Inr (True,
                                     fs(filepath \<mapsto> conditions_loop (set_col df1 ''NAPI'' (FloatCol (\<lambda>i. NaN)))),
                                     [(INFO, msg_napi_complete filepath)]))
                  | Some ppt \<Rightarrow>
                      (case series_mean ar (nrows df1) ppt of
                         Inl e \<Rightarrow> Inl e
                       | Inr mean_ppt \<Rightarrow>
                           if mean_ppt = Fin 0
                           then Inr (True,
                                     fs(filepath \<mapsto> set_col df1 ''NAPI'' (FloatCol (\<lambda>i. NaN))),
                                     [(WARNING, msg_zero_mean)])
                           else
                             (case napi_denominator ar decay_constant ante_days of
                                Inl e \<Rightarrow> Inl e
                              | Inr denominator \<Rightarrow>
                                  Inr (True,
                                       fs(filepath \<mapsto>
                                          conditions_loop
                                            (napi_loop ar ppt_field decay_constant ante_days decimals mean_ppt
                                               denominator (set_col df1 ''NAPI'' (FloatCol (\<lambda>i. NaN))))),
                                       [(INFO, msg_napi_complete filepath)]))))))"

text \<open>\<^verbatim>\<open>calculate_napi\<close>: the body under its handler \<^verbatim>\<open>except Exception\<close>, which returns False.\<close>

definition calculate_napi ::
  "arith \<Rightarrow> (string option \<Rightarrow> cell \<Rightarrow> datetime option) \<Rightarrow> csv_fs \<Rightarrow> string \<Rightarrow> float \<Rightarrow> int \<Rightarrow> string \<Rightarrow> string
     \<Rightarrow> string \<Rightarrow> int \<Rightarrow> bool \<times> csv_fs \<times> log" where
  "calculate_napi ar parse fs filepath decay_constant ante_days ppt_field date_field resolution decimals =
     (case napi_body ar parse fs filepath decay_constant ante_days ppt_field date_field resolution decimals of
        Inl e \<Rightarrow> (False, fs, [(ERROR, msg_napi_error)])
      | Inr r \<Rightarrow> r)"

section \<open>Strings and paths\<close>

text \<open>Strings are byte strings here; the file names of the program are ASCII.\<close>

definition is_upper :: "char \<Rightarrow> bool" where
  "is_upper c = (65 \<le> (of_char c :: nat) \<and> (of_char c :: nat) \<le> 90)"

definition is_lower :: "char \<Rightarrow> bool" where
  "is_lower c = (97 \<le> (of_char c :: nat) \<and> (of_char c :: nat) \<le> 122)"

definition is_digit :: "char \<Rightarrow> bool" where
  "is_digit c = (48 \<le> (of_char c :: nat) \<and> (of_char c :: nat) \<le> 57)"

definition is_alpha :: "char \<Rightarrow> bool" where
  "is_alpha c = (is_upper c \<or> is_lower c)"

definition is_alnum :: "char \<Rightarrow> bool" where
  "is_alnum c = (is_digit c \<or> is_alpha c)"


text \<open>\<^verbatim>\<open>s.endswith(t)\<close> and \<^verbatim>\<open>s.startswith(t)\<close>\<close>

definition endswith :: "string \<Rightarrow> string \<Rightarrow> bool" where
  "endswith s t = (length t \<le> length s \<and> drop (length s - length t) s = t)"

definition startswith :: "string \<Rightarrow> string \<Rightarrow> bool" where
  "startswith s t = (take (length t) s = t)"

text \<open>\<^verbatim>\<open>s.split(c)\<close> for a one-character separator: one more part than separators.\<close>

fun split_on :: "char \<Rightarrow> string \<Rightarrow> string list" where
  "split_on c [] = [[]]"
| "split_on c (x # xs) =
     (if x = c then [] # split_on c xs
      else (case split_on c xs of [] \<Rightarrow> [[x]] | p # ps \<Rightarrow> (x # p) # ps))"

text \<open>\<^verbatim>\<open>os.path.basename(p)\<close> on POSIX: what follows the last slash.\<close>

definition basename :: "string \<Rightarrow> string" where
  "basename p = rev (takeWhile (\<lambda>c. c \<noteq> CHR ''/'') (rev p))"


text \<open>\<^verbatim>\<open>os.path.join(a, b)\<close> on POSIX.\<close>

definition path_join :: "string \<Rightarrow> string \<Rightarrow> string" where
  "path_join a b =
     (if startswith b ''/'' then b
      else if a = [] \<or> endswith a ''/'' then a @ b
      else a @ ''/'' @ b)"

section \<open>The file name parser: \<^verbatim>\<open>parse_filename\<close> of utils.py\<close>

text \<open>
  The regular expressions the parser needs: the empty word, a character, a character
  class, any character but a newline, sequence, ordered choice, a greedy optional part, a
  greedy \<open>+\<close> on a class, and a numbered capture group.
\<close>

datatype re =
    Eps
  | Chr char
  | Cls "char \<Rightarrow> bool"
  | AnyChar
  | Cat re re
  | Alt re re
  | Opt re
  | Plus "char \<Rightarrow> bool"
  | Group nat re

type_synonym groups = "nat \<rightharpoonup> string"

text \<open>
  A backtracking matcher: from the rest of the input and the groups captured so far, all the
  ways to match, in the order the library tries them (the longer repetition first, the
  optional part first, the left alternative first).
\<close>

fun rmatch :: "re \<Rightarrow> string \<times> groups \<Rightarrow> (string \<times> groups) list" where
  "rmatch Eps st = [st]"
| "rmatch (Chr c) (s, g) = (case s of [] \<Rightarrow> [] | x # xs \<Rightarrow> if x = c then [(xs, g)] else [])"
| "rmatch (Cls P) (s, g) = (case s of [] \<Rightarrow> [] | x # xs \<Rightarrow> if P x then [(xs, g)] else [])"
| "rmatch AnyChar (s, g) = (case s of [] \<Rightarrow> [] | x # xs \<Rightarrow> if x \<noteq> CHR 0x0A then [(xs, g)] else [])"
| "rmatch (Cat a b) st = concat (map (rmatch b) (rmatch a st))"
| "rmatch (Alt a b) st = rmatch a st @ rmatch b st"
| "rmatch (Opt a) st = rmatch a st @ [st]"
| "rmatch (Plus P) (s, g) = map (\<lambda>k. (drop k s, g)) (rev [1..<Suc (length (takeWhile P s))])"
| "rmatch (Group i a) (s, g) =
     map (\<lambda>(s', g'). (s', g'(i \<mapsto> take (length s - length s') s))) (rmatch a (s, g))"

text \<open>\<^verbatim>\<open>re.search\<close>: the first match at the leftmost position that has one.\<close>

fun search :: "re \<Rightarrow> string \<Rightarrow> groups option" where
  "search r [] = (case rmatch r ([], Map.empty) of [] \<Rightarrow> None | (rest, g) # ms \<Rightarrow> Some g)"
| "search r (x # xs) =
     (case rmatch r (x # xs, Map.empty) of [] \<Rightarrow> search r xs | (rest, g) # ms \<Rightarrow> Some g)"

text \<open>A literal word, and \<open>n\<close> copies of an expression in sequence.\<close>

fun lit :: "string \<Rightarrow> re" where
  "lit [] = Eps"
| "lit (c # cs) = Cat (Chr c) (lit cs)"

fun times :: "nat \<Rightarrow> re \<Rightarrow> re" where
  "times 0 r = Eps"
| "times (Suc n) r = Cat r (times n r)"

text \<open>
  \<^verbatim>\<open>prism_([a-zA-Z]+)(?:_([\da-zA-Z]+))?_([\da-zA-Z]+)_(\d{8}|\d{6})(?:_([\da-zA-Z]+))?.tif\<close>
\<close>

definition pattern :: re where
  "pattern =
     Cat (lit ''prism_'')
    (Cat (Group 1 (Plus is_alpha))
    (Cat (Opt (Cat (Chr CHR ''_'') (Group 2 (Plus is_alnum))))
    (Cat (Chr CHR ''_'')
    (Cat (Group 3 (Plus is_alnum))
    (Cat (Chr CHR ''_'')
    (Cat (Group 4 (Alt (times 8 (Cls is_digit)) (times 6 (Cls is_digit))))
    (Cat (Opt (Cat (Chr CHR ''_'') (Group 5 (Plus is_alnum))))
    (Cat AnyChar (lit ''tif'')))))))))"

text \<open>
  \<^verbatim>\<open>datetime.strptime(date, fmt).strftime(out)\<close> is a parameter \<open>reformat\<close> of the parser:
  from the input format, the output format and the digits it gives the date rewritten, or
  \<open>None\<close> where \<^verbatim>\<open>strptime\<close> raises ValueError.

  \<^verbatim>\<open>parse_filename\<close> returns (variable, region, resolution, formatted date); the region is
  \<open>None\<close> when the file name has none. When the pattern does not match, the function
  raises ValueError: the statements after the \<^verbatim>\<open>raise\<close> (an error record and the
  return of four \<^verbatim>\<open>None\<close>) are never run.
\<close>

definition parse_filename ::
  "(string \<Rightarrow> string \<Rightarrow> string \<Rightarrow> string option) \<Rightarrow> string
     \<Rightarrow> (exn + string \<times> string option \<times> string \<times> string) \<times> log" where
  "parse_filename reformat filename =
     (case search pattern filename of
        Some g \<Rightarrow>
          (let variable = (case g 1 of Some v \<Rightarrow> v | None \<Rightarrow> []);
               region = g 2;
               resolution = (case g 3 of Some v \<Rightarrow> v | None \<Rightarrow> []);
               date = (case g 4 of Some v \<Rightarrow> v | None \<Rightarrow> []);
               lg = [(INFO, ''Regex matched successfully.''),
                     (INFO, ''Extracted - variable: '' @ variable @ '', region: ''
                            @ (case region of Some v \<Rightarrow> v | None \<Rightarrow> ''None'')
                            @ '', resolution: '' @ resolution @ '', date: '' @ date)]
           in if length date = 8
              then (case reformat ''%Y%m%d'' ''%Y-%m-%d'' date of
                      Some formatted_date \<Rightarrow> (Inr (variable, region, resolution, formatted_date), lg)
                    | None \<Rightarrow> (Inr (variable, region, resolution, date),
                               lg @ [(ERROR, ''Failed to parse date string '' @ date @ '': '')]))
              else if length date = 6
              then (case reformat ''%Y%m'' ''%Y-%m'' date of
                      Some formatted_date \<Rightarrow> (Inr (variable, region, resolution, formatted_date), lg)
                    | None \<Rightarrow> (Inr (variable, region, resolution, date),
                               lg @ [(ERROR, ''Failed to parse date string '' @ date @ '': '')]))
              else (Inr (variable, region, resolution, date), lg))
      | None \<Rightarrow> (Inl ValueError, []))"

section \<open>Statistics of a sample: \<^verbatim>\<open>calculate_stats\<close> of data_processing.py\<close>

record stats =
  stat_min :: float
  stat_max :: float
  stat_mean :: float
  stat_median :: float

definition msg_generic :: "string \<Rightarrow> string" where
  "msg_generic climate =
     ''Climate variable '' @ [CHR 0x22] @ climate @ [CHR 0x22]
       @ '' not explicitly handled. Calculating generic statistics.''"

text \<open>
  \<^verbatim>\<open>round(c / 25.40, decimals)\<close> and \<^verbatim>\<open>round((c * 9/5) + 32, decimals)\<close>; the literals
  are named by their decimal values.
\<close>

definition to_inches :: "arith \<Rightarrow> float \<Rightarrow> int \<Rightarrow> float" where
  "to_inches ar c decimals = fl_round ar (fl_div ar c (Fin (254 / 10))) decimals"

definition to_fahrenheit :: "arith \<Rightarrow> float \<Rightarrow> int \<Rightarrow> float" where
  "to_fahrenheit ar c decimals =
     fl_round ar (fl_add ar (fl_div ar (fl_mul ar c (Fin 9)) (Fin 5)) (Fin 32)) decimals"

definition calculate_stats :: "arith \<Rightarrow> float list \<Rightarrow> string \<Rightarrow> string \<Rightarrow> int \<Rightarrow> stats \<times> log" where
  "calculate_stats ar data_series climate unit decimals =
     (if data_series = [] \<or> list_all isnan data_series
      then (\<lparr>stat_min = NaN, stat_max = NaN, stat_mean = NaN, stat_median = NaN\<rparr>, [])
      else
        (let cmin = np_min ar data_series;
             cmax = np_max ar data_series;
             cmean = np_mean ar data_series;
             cmed = np_median ar data_series
         in if climate = ''ppt''
            then (if unit = ''in''
                  then (\<lparr>stat_min = to_inches ar cmin decimals, stat_max = to_inches ar cmax decimals,
                         stat_mean = to_inches ar cmean decimals, stat_median = to_inches ar cmed decimals\<rparr>, [])
                  else (\<lparr>stat_min = fl_round ar cmin decimals, stat_max = fl_round ar cmax decimals,
                         stat_mean = fl_round ar cmean decimals, stat_median = fl_round ar cmed decimals\<rparr>, []))
            else if startswith climate ''t''
            then (if unit = ''f''
                  then (\<lparr>stat_min = to_fahrenheit ar cmin decimals, stat_max = to_fahrenheit ar cmax decimals,
                         stat_mean = to_fahrenheit ar cmean decimals,
                         stat_median = to_fahrenheit ar cmed decimals\<rparr>, [])
                  else (\<lparr>stat_min = fl_round ar cmin decimals, stat_max = fl_round ar cmax decimals,
                         stat_mean = fl_round ar cmean decimals, stat_median = fl_round ar cmed decimals\<rparr>, []))
            else (\<lparr>stat_min = fl_round ar cmin decimals, stat_max = fl_round ar cmax decimals,
                   stat_mean = fl_round ar cmean decimals, stat_median = fl_round ar cmed decimals\<rparr>,
                  [(WARNING, msg_generic climate)])))"

section \<open>The statistics table: \<^verbatim>\<open>climate_data\<close> of data_processing.py\<close>

text \<open>
  What \<^verbatim>\<open>rasterio.open\<close> gives for a raster file: the cells of band 1 row by row, the
  nodata value (absent, a number, or NaN), and the scales and offsets of the bands.
\<close>

record raster_src =
  cells :: "float list list"
  nodata :: "float option"
  scales :: "float list"
  offsets :: "float list"

type_synonym raster_fs = "string \<rightharpoonup> raster_src"

text \<open>The array \<^verbatim>\<open>(data * scale_factor) + offset_value\<close> of the source.\<close>

definition scaled :: "arith \<Rightarrow> float \<Rightarrow> float \<Rightarrow> float list list \<Rightarrow> float list list" where
  "scaled ar scale_factor offset_value data =
     map (map (\<lambda>x. fl_add ar (fl_mul ar x scale_factor) offset_value)) data"

text \<open>
  The sample of a raster, as the source derives it. The scaled array is bound to
  \<^verbatim>\<open>clean_data\<close> and not read again: the nodata filter and the flattening work on
  \<^verbatim>\<open>data\<close>, the cells as stored.
\<close>

definition data_series :: "arith \<Rightarrow> raster_src \<Rightarrow> float list" where
  "data_series ar src =
     (let data = cells src;
          nodata_mask = nodata src;
          scale_factor = (if scales src \<noteq> [] then hd (scales src) else Fin 1);
          offset_value = (if offsets src \<noteq> [] then hd (offsets src) else Fin 0);
          clean_data = (if fne scale_factor (Fin 1) \<or> fne offset_value (Fin 0)
                        then scaled ar scale_factor offset_value data else [])
      in case nodata_mask of
           None \<Rightarrow> concat data
         | Some v \<Rightarrow>
             if \<not> isnan v then filter (\<lambda>x. fne x v) (concat data)
             else filter (\<lambda>x. \<not> isnan x) (concat data))"

record csv_row =
  row_filename :: string
  row_climate :: string
  row_date :: string
  row_min :: float
  row_max :: float
  row_mean :: float
  row_median :: float

definition stat_columns :: "string \<Rightarrow> string list" where
  "stat_columns unit =
     (if unit = ''in'' then [''Min. (in)'', ''Max. (in)'', ''Arithmetic Mean (in)'', ''Median (in)'']
      else if unit = ''mm'' then [''Min. (mm)'', ''Max. (mm)'', ''Arithmetic Mean (mm)'', ''Median (mm)'']
      else if unit = ''f'' then [''Min. (F)'', ''Max. (F)'', ''Arithmetic Mean (F)'', ''Median (F)'']
      else if unit = ''c'' then [''Min. (C)'', ''Max. (C)'', ''Arithmetic Mean (C)'', ''Median (C)'']
      else [''Min.'', ''Max.'', ''Arithmetic Mean'', ''Median''])"

definition fieldnames :: "string \<Rightarrow> string list" where
  "fieldnames unit = [''Filename'', ''Climate Variable'', ''Date''] @ stat_columns unit"

definition msg_skip :: "string \<Rightarrow> string" where
  "msg_skip raster = ''All valid data is NoData/NaN in '' @ basename raster @ ''. Skipping.''"

definition msg_saved :: "string \<Rightarrow> string \<Rightarrow> string" where
  "msg_saved raster csvPath =
     ''Data from '' @ [CHR 0x22] @ basename raster @ [CHR 0x22] @ '' has been saved to ''
       @ [CHR 0x22] @ basename csvPath @ [CHR 0x22]"

text \<open>
  The date of the row. When the parser returns an empty variable the source splits the
  file name at the underscores, and falls back to \<open>unknown\<close> when there are fewer than five
  parts.
\<close>

definition row_date_of :: "string \<Rightarrow> string \<Rightarrow> string \<Rightarrow> string" where
  "row_date_of filename variable formatted_date =
     (if variable = []
      then (let parts = split_on CHR ''_'' filename
            in if 5 \<le> length parts then parts ! 3 else ''unknown'')
      else formatted_date)"

text \<open>
  One pass of the loop over the clipped rasters: an exception that leaves the pass
  (\<open>Inl\<close>), or the row written, if any (\<open>Inr\<close>), with the log records of the pass. The two
  handlers of the pass log the error and the exception and raise it again. The records of
  the progress display are not modelled.
\<close>

definition process_raster ::
  "arith \<Rightarrow> (string \<Rightarrow> string \<Rightarrow> string \<Rightarrow> string option) \<Rightarrow> raster_fs \<Rightarrow> string \<Rightarrow> string \<Rightarrow> string \<Rightarrow> int
     \<Rightarrow> string \<Rightarrow> (exn + csv_row option) \<times> log" where
  "process_raster ar reformat rfs csvPath climate unit decimals raster =
     (case rfs raster of
        None \<Rightarrow> (Inl RasterioIOError,
                 [(ERROR, ''Error opening raster '' @ basename raster @ '': ''), (ERROR, [])])
      | Some src \<Rightarrow>
          (let series = data_series ar src
           in if series = [] \<or> list_all isnan series
              then (Inr None, [(WARNING, msg_skip raster)])
              else
                (case calculate_stats ar series climate unit decimals of
                   (st, lg1) \<Rightarrow>
                     (case parse_filename reformat (basename raster) of
                        (Inl e, lg2) \<Rightarrow>
                          (Inl e, lg1 @ lg2
                             @ [(ERROR, ''Error processing raster '' @ basename raster @ '': ''), (ERROR, [])])
                      | (Inr (variable, region, resolution, formatted_date), lg2) \<Rightarrow>
                          (Inr (Some \<lparr>row_filename = basename raster, row_climate = climate,
                                      row_date = row_date_of (basename raster) variable formatted_date,
                                      row_min = stat_min st, row_max = stat_max st,
                                      row_mean = stat_mean st, row_median = stat_median st\<rparr>),
                           lg1 @ lg2 @ [(INFO, msg_saved raster csvPath)])))))"

text \<open>The loop: it stops at the first exception, with the rows written so far.\<close>

fun climate_rows ::
  "arith \<Rightarrow> (string \<Rightarrow> string \<Rightarrow> string \<Rightarrow> string option) \<Rightarrow> raster_fs \<Rightarrow> string \<Rightarrow> string \<Rightarrow> string \<Rightarrow> int
     \<Rightarrow> string list \<Rightarrow> csv_row list \<times> log \<Rightarrow> exn option \<times> csv_row list \<times> log" where
  "climate_rows ar reformat rfs csvPath climate unit decimals [] (rows, lg) = (None, rows, lg)"
| "climate_rows ar reformat rfs csvPath climate unit decimals (raster # rest) (rows, lg) =
     (case process_raster ar reformat rfs csvPath climate unit decimals raster of
        (Inl e, lg') \<Rightarrow> (Some e, rows, lg @ lg')
      | (Inr None, lg') \<Rightarrow> climate_rows ar reformat rfs csvPath climate unit decimals rest (rows, lg @ lg')
      | (Inr (Some row), lg') \<Rightarrow>
          climate_rows ar reformat rfs csvPath climate unit decimals rest (rows @ [row], lg @ lg'))"

text \<open>
  \<^verbatim>\<open>climate_data\<close>, from the point where the CSV file is open and its header written:
  the exception that leaves the function, if any, the rows written and the log. The outer
  handlers log the error and the exception and raise it again; a failure to open a raster
  is an \<^verbatim>\<open>OSError\<close> and takes the first handler.
\<close>

definition climate_data ::
  "arith \<Rightarrow> (string \<Rightarrow> string \<Rightarrow> string \<Rightarrow> string option) \<Rightarrow> raster_fs \<Rightarrow> string \<Rightarrow> string \<Rightarrow> string list
     \<Rightarrow> string \<Rightarrow> string \<Rightarrow> int \<Rightarrow> exn option \<times> csv_row list \<times> log" where
  "climate_data ar reformat rfs csv_dir csv_file clipped_rasters climate unit decimals =
     (let csvPath = path_join csv_dir csv_file
      in case climate_rows ar reformat rfs csvPath climate unit decimals clipped_rasters
                ([], [(INFO, ''CSV header written to: '' @ csvPath)]) of
           (None, rows, lg) \<Rightarrow> (None, rows, lg)
         | (Some e, rows, lg) \<Rightarrow>
             (Some e, rows,
              lg @ (if e = RasterioIOError \<or> e = FileNotFoundError
                    then [(ERROR, ''Failed to write to CSV file: ''), (ERROR, [])]
                    else [(ERROR, ''Failed to save data to CSV file: ''), (ERROR, [])])))"

section \<open>Clipping: \<^verbatim>\<open>raster_clip\<close> of data_processing.py\<close>







section \<open>The specification's words\<close>

text \<open>
  The weighted sum of the index for row \<open>i\<close> over a window of \<open>n\<close> rows: the terms
  \<open>ppt[i-j] * k^j\<close> added up in the order \<open>j = 1, ..., n\<close>, where \<open>pw j\<close> is the power \<open>k^j\<close>.
  The index of the row is the sum over the mean times the sum of the powers, rounded.
\<close>

fun wsum :: "arith \<Rightarrow> (nat \<Rightarrow> float) \<Rightarrow> (int \<Rightarrow> float) \<Rightarrow> nat \<Rightarrow> nat \<Rightarrow> float" where
  "wsum ar ppt pw i 0 = Fin 0"
| "wsum ar ppt pw i (Suc n) =
     fl_add ar (wsum ar ppt pw i n) (fl_mul ar (ppt (i - Suc n)) (pw (int (Suc n))))"

definition spec_napi ::
  "arith \<Rightarrow> (nat \<Rightarrow> float) \<Rightarrow> (int \<Rightarrow> float) \<Rightarrow> float \<Rightarrow> int \<Rightarrow> int \<Rightarrow> nat \<Rightarrow> float" where
  "spec_napi ar ppt pw mean N decimals i =
     fl_round ar
       (fl_div ar (wsum ar ppt pw i (nat N)) (fl_mul ar mean (py_sum ar (map pw [1..N]))))
       decimals"


text \<open>The label of an index value in the specification's words.\<close>

definition spec_label :: "float \<Rightarrow> string option" where
  "spec_label v =
     (case v of
        NaN \<Rightarrow> None
      | Fin x \<Rightarrow> if \<bar>x - 1\<bar> < 1 / 10 ^ 6 then Some ''normal'' else if 1 < x then Some ''wet'' else Some ''dry''
      | PInf \<Rightarrow> Some ''wet''
      | NInf \<Rightarrow> Some ''dry'')"

text \<open>The inner loop and the value of one row, as functions of the precipitation column alone.\<close>

definition numer :: "arith \<Rightarrow> (nat \<Rightarrow> float) \<Rightarrow> float \<Rightarrow> int \<Rightarrow> nat \<Rightarrow> float" where
  "numer ar p k N i =
     fold (\<lambda>j numerator. fl_add ar numerator (fl_mul ar (p (nat (int i - j))) (weight ar k j))) [1..N] (Fin 0)"

definition napi_target :: "arith \<Rightarrow> (nat \<Rightarrow> float) \<Rightarrow> float \<Rightarrow> int \<Rightarrow> int \<Rightarrow> float \<Rightarrow> float \<Rightarrow> nat \<Rightarrow> float" where
  "napi_target ar p k N decimals mean_ppt denominator i =
     (if fne (fl_mul ar mean_ppt denominator) (Fin 0)
      then fl_round ar (fl_div ar (numer ar p k N i) (fl_mul ar mean_ppt denominator)) decimals
      else NaN)"

section \<open>Example inputs\<close>

text \<open>
  An arithmetic for the examples: exact on finite numbers, with decimal rounding to the
  nearest, ties to the even digit, a power that overflows at \<open>2^1024\<close>, and NaN wherever an
  operand is not finite. It is not the arithmetic of doubles; the properties below hold
  for every arithmetic, and the examples use small numbers on which the two agree to the
  digits shown.
\<close>

definition is_fin :: "float \<Rightarrow> bool" where
  "is_fin x = (case x of Fin r \<Rightarrow> True | _ \<Rightarrow> False)"

fun fins :: "float list \<Rightarrow> rat list" where
  "fins [] = []"
| "fins (Fin x # xs) = x # fins xs"
| "fins (y # xs) = fins xs"

definition ideal_add :: "float \<Rightarrow> float \<Rightarrow> float" where
  "ideal_add a b = (case a of Fin x \<Rightarrow> (case b of Fin y \<Rightarrow> Fin (x + y) | _ \<Rightarrow> NaN) | _ \<Rightarrow> NaN)"

definition ideal_mul :: "float \<Rightarrow> float \<Rightarrow> float" where
  "ideal_mul a b = (case a of Fin x \<Rightarrow> (case b of Fin y \<Rightarrow> Fin (x * y) | _ \<Rightarrow> NaN) | _ \<Rightarrow> NaN)"

definition ideal_div :: "float \<Rightarrow> float \<Rightarrow> float" where
  "ideal_div a b =
     (case a of Fin x \<Rightarrow> (case b of Fin y \<Rightarrow> if y = 0 then NaN else Fin (x / y) | _ \<Rightarrow> NaN) | _ \<Rightarrow> NaN)"

definition ideal_pow :: "float \<Rightarrow> int \<Rightarrow> exn + float" where
  "ideal_pow k j =
     (case k of
        Fin x \<Rightarrow> if \<bar>x ^ nat j\<bar> < 2 ^ 1024 then Inr (Fin (x ^ nat j)) else Inl OverflowError
      | _ \<Rightarrow> Inr NaN)"

definition ideal_sum :: "float list \<Rightarrow> float" where
  "ideal_sum xs = (if list_all is_fin xs then Fin (sum_list (fins xs)) else NaN)"

definition round_half_even :: "rat \<Rightarrow> int" where
  "round_half_even x =
     (let f = \<lfloor>x\<rfloor>; r = x - of_int f
      in if r < 1 / 2 then f else if 1 / 2 < r then f + 1 else if even f then f else f + 1)"

definition round_decimal :: "rat \<Rightarrow> int \<Rightarrow> rat" where
  "round_decimal x decimals =
     (if 0 \<le> decimals
      then of_int (round_half_even (x * 10 ^ nat decimals)) / 10 ^ nat decimals
      else of_int (round_half_even (x / 10 ^ nat (- decimals))) * 10 ^ nat (- decimals))"

definition ideal_round :: "float \<Rightarrow> int \<Rightarrow> float" where
  "ideal_round a decimals = (case a of Fin x \<Rightarrow> Fin (round_decimal x decimals) | _ \<Rightarrow> a)"

definition ideal_pd_mean :: "float list \<Rightarrow> float" where
  "ideal_pd_mean xs = (if fins xs = [] then NaN else Fin (sum_list (fins xs) / of_nat (length (fins xs))))"

definition ideal_min :: "float list \<Rightarrow> float" where
  "ideal_min xs = (if list_all is_fin xs then (case fins xs of [] \<Rightarrow> NaN | y # ys \<Rightarrow> Fin (fold min ys y)) else NaN)"

definition ideal_max :: "float list \<Rightarrow> float" where
  "ideal_max xs = (if list_all is_fin xs then (case fins xs of [] \<Rightarrow> NaN | y # ys \<Rightarrow> Fin (fold max ys y)) else NaN)"

definition ideal_mean :: "float list \<Rightarrow> float" where
  "ideal_mean xs =
     (if list_all is_fin xs \<and> xs \<noteq> [] then Fin (sum_list (fins xs) / of_nat (length xs)) else NaN)"

definition ideal_median :: "float list \<Rightarrow> float" where
  "ideal_median xs =
     (if list_all is_fin xs \<and> xs \<noteq> []
      then (let s = sort (fins xs); n = length s
            in if odd n then Fin (s ! (n div 2))
               else Fin ((s ! (n div 2 - 1) + s ! (n div 2)) / 2))
      else NaN)"

definition ideal :: arith where
  "ideal = \<lparr>fl_add = ideal_add, fl_mul = ideal_mul, fl_div = ideal_div, fl_pow = ideal_pow,
            fl_sum = ideal_sum, fl_round = ideal_round, pd_mean = ideal_pd_mean,
            np_min = ideal_min, np_max = ideal_max, np_mean = ideal_mean, np_median = ideal_median\<rparr>"

definition no_parse :: "string option \<Rightarrow> cell \<Rightarrow> datetime option" where
  "no_parse fmt c = None"

text \<open>A cell parser for the examples: a number is the timestamp, a missing number is NaT.\<close>

fun num_parse :: "string option \<Rightarrow> cell \<Rightarrow> datetime option" where
  "num_parse fmt (CFloat (Fin x)) = Some (Timestamp \<lfloor>x\<rfloor>)"
| "num_parse fmt (CFloat y) = Some NaT"
| "num_parse fmt (CDate d) = Some d"
| "num_parse fmt (CObj s) = None"

text \<open>A column given by the list of its cells.\<close>

definition col_of :: "'a \<Rightarrow> 'a list \<Rightarrow> nat \<Rightarrow> 'a" where
  "col_of dflt xs i = (if i < length xs then xs ! i else dflt)"

definition table_no_ppt :: frame where
  "table_no_ppt = \<lparr>nrows = 1, cols = [(''Date'', ObjCol (\<lambda>i. Some ''2020-01''))]\<rparr>"

definition table_k0 :: frame where
  "table_k0 = \<lparr>nrows = 2, cols = [(''Date'', FloatCol (col_of NaN [Fin 2, Fin 1])),
                                  (''ppt'', FloatCol (col_of NaN [Fin 2, Fin 1]))]\<rparr>"

definition table_zero :: frame where
  "table_zero = \<lparr>nrows = 2, cols = [(''Date'', FloatCol (col_of NaN [Fin 2, Fin 1])),
                                  (''ppt'', FloatCol (col_of NaN [Fin 0, Fin 0]))]\<rparr>"

definition table_three :: frame where
  "table_three = \<lparr>nrows = 3, cols = [(''Date'', FloatCol (col_of NaN [Fin 2, Fin 1, Fin 3])),
                                  (''ppt'', FloatCol (col_of NaN [Fin 3, Fin 1, Fin 2]))]\<rparr>"

text \<open>
  Example rasters, a date reformatter that only inserts the dashes, a reprojection that
  leaves the boundary as it is, and a clipper that returns the raster as it is.
\<close>

definition dash_reformat :: "string \<Rightarrow> string \<Rightarrow> string \<Rightarrow> string option" where
  "dash_reformat fmt out date =
     (if fmt = ''%Y%m%d'' then Some (take 4 date @ ''-'' @ take 2 (drop 4 date) @ ''-'' @ drop 6 date)
      else Some (take 4 date @ ''-'' @ drop 4 date))"

definition raster_scaled :: raster_src where
  "raster_scaled = \<lparr>cells = [[Fin 1, Fin 2]], nodata = None, scales = [Fin 2], offsets = [Fin 0]\<rparr>"

definition raster_plain :: raster_src where
  "raster_plain = \<lparr>cells = [[Fin 10, Fin 20], [Fin 30, Fin 40]], nodata = None, scales = [], offsets = []\<rparr>"

definition raster_nodata :: raster_src where
  "raster_nodata = \<lparr>cells = [[Fin (- 9999), Fin (- 9999)]], nodata = Some (Fin (- 9999)), scales = [], offsets = []\<rparr>"




section \<open>Properties of the antecedent index\<close>

lemma map_of_set_col: "map_of (cols (set_col df c s)) = (map_of (cols df))(c \<mapsto> s)"
  by (simp add: set_col_def update_conv')

lemma nrows_set_col: "nrows (set_col df c s) = nrows df"
  by (simp add: set_col_def)

text \<open>The row order of the sort is a permutation of the rows, ascending in the dates, NaT last.\<close>

lemma argsort_set: "set (argsort n d) = {0..<n}"
  by (auto simp: argsort_def)

lemma argsort_distinct: "distinct (argsort n d)"
  by (auto simp: argsort_def)

lemma argsort_length: "length (argsort n d) = n"
  using argsort_distinct [of n d] argsort_set [of n d]
  by (metis card_atLeastLessThan diff_zero distinct_card)

lemma argsort_ascending:
  "\<exists>ts ns. argsort n d = ts @ ns \<and> sorted (map (\<lambda>i. stamp (d i)) ts)
           \<and> (\<forall>i\<in>set ts. d i \<noteq> NaT) \<and> (\<forall>i\<in>set ns. d i = NaT)"
proof (intro exI conjI)
  show "argsort n d = sort_key (\<lambda>i. stamp (d i)) (filter (\<lambda>i. d i \<noteq> NaT) [0..<n]) @ filter (\<lambda>i. d i = NaT) [0..<n]"
    by (simp add: argsort_def)
qed auto

text \<open>
  C8. When the precipitation column or the date column is absent from the table read,
  \<open>calculate_napi\<close> returns False after one error record, and the file system it
  returns is the one it was given: nothing is written.
\<close>

theorem napi_missing_column_unmutated:
  assumes "fs filepath = Some df"
    and "ppt_field \<notin> set (columns df) \<or> date_field \<notin> set (columns df)"
  shows "calculate_napi ar parse fs filepath decay_constant ante_days ppt_field date_field resolution decimals
         = (False, fs, [(ERROR, msg_missing_columns ppt_field date_field)])"
  using assms by (simp add: calculate_napi_def napi_body_def read_csv_def)

theorem napi_missing_column_unmutated_witness:
  "calculate_napi ideal no_parse [''series.csv'' \<mapsto> table_no_ppt] ''series.csv'' (Fin (98 / 100)) 3
     ''Arithmetic Mean (mm)'' ''Date'' ''monthly'' 2
   = (False, [''series.csv'' \<mapsto> table_no_ppt], [(ERROR, msg_missing_columns ''Arithmetic Mean (mm)'' ''Date'')])"
  using napi_missing_column_unmutated [where fs = "[''series.csv'' \<mapsto> table_no_ppt]" and filepath = "''series.csv''"
      and df = table_no_ppt and ppt_field = "''Arithmetic Mean (mm)''" and date_field = "''Date''" and ar = ideal
      and parse = no_parse and decay_constant = "Fin (98 / 100)" and ante_days = 3 and resolution = "''monthly''"
      and decimals = 2]
  by (simp add: table_no_ppt_def columns_def)

lemma napi_read_failure:
  "fs filepath = None \<Longrightarrow>
   napi_body ar parse fs filepath k N ppt_field date_field resolution decimals = Inl FileNotFoundError"
  by (simp add: napi_body_def read_csv_def)

lemma to_datetime_fails:
  "i < n \<Longrightarrow> parse fmt (cell_at s i) = None \<Longrightarrow> to_datetime parse fmt n s = Inl ValueError"
  by (auto simp: to_datetime_def list_all_iff)

lemma powers_fail:
  "j \<in> set js \<Longrightarrow> fl_pow ar k j = Inl e \<Longrightarrow> \<exists>e'. powers ar k js = Inl e'"
  by (induction js) (auto split: sum.splits)

text \<open>
  C10. No exception leaves \<open>calculate_napi\<close>: a path that cannot be read, a date cell
  that does not parse under the format of the resolution, and any other exception of the
  body all end in the handler, which logs one error and returns False with the file system
  unchanged.
\<close>

theorem napi_never_raises:
  "(fs filepath = None \<longrightarrow>
      calculate_napi ar parse fs filepath k N ppt_field date_field resolution decimals = (False, fs, [(ERROR, msg_napi_error)]))
   \<and> (fs filepath = Some df \<and> ppt_field \<in> set (columns df) \<and> map_of (cols df) date_field = Some dates
        \<and> i < nrows df \<and> parse (date_format resolution) (cell_at dates i) = None \<longrightarrow>
      calculate_napi ar parse fs filepath k N ppt_field date_field resolution decimals = (False, fs, [(ERROR, msg_napi_error)]))
   \<and> (\<forall>e. napi_body ar parse fs filepath k N ppt_field date_field resolution decimals = Inl e \<longrightarrow>
      calculate_napi ar parse fs filepath k N ppt_field date_field resolution decimals = (False, fs, [(ERROR, msg_napi_error)]))"
proof (intro conjI impI allI)
  assume "fs filepath = None"
  then show "calculate_napi ar parse fs filepath k N ppt_field date_field resolution decimals = (False, fs, [(ERROR, msg_napi_error)])"
    by (simp add: calculate_napi_def napi_read_failure)
next
  assume a: "fs filepath = Some df \<and> ppt_field \<in> set (columns df) \<and> map_of (cols df) date_field = Some dates
        \<and> i < nrows df \<and> parse (date_format resolution) (cell_at dates i) = None"
  then have "date_field \<in> set (columns df)"
    by (auto simp: columns_def dest: map_of_SomeD intro: rev_image_eqI)
  moreover from a have "to_datetime parse (date_format resolution) (nrows df) dates = Inl ValueError"
    using to_datetime_fails [of i "nrows df" parse "date_format resolution" dates] by simp
  ultimately show "calculate_napi ar parse fs filepath k N ppt_field date_field resolution decimals = (False, fs, [(ERROR, msg_napi_error)])"
    using a by (simp add: calculate_napi_def napi_body_def read_csv_def sorted_table_def)
next
  fix e assume "napi_body ar parse fs filepath k N ppt_field date_field resolution decimals = Inl e"
  then show "calculate_napi ar parse fs filepath k N ppt_field date_field resolution decimals = (False, fs, [(ERROR, msg_napi_error)])"
    by (simp add: calculate_napi_def)
qed

theorem napi_never_raises_witness:
  "calculate_napi ideal no_parse Map.empty ''series.csv'' (Fin (98 / 100)) 3 ''ppt'' ''Date'' ''daily'' 2
     = (False, Map.empty, [(ERROR, msg_napi_error)])
   \<and> calculate_napi ideal no_parse [''series.csv'' \<mapsto> table_no_ppt] ''series.csv'' (Fin (98 / 100)) 3 ''Date'' ''Date'' ''daily'' 2
     = (False, [''series.csv'' \<mapsto> table_no_ppt], [(ERROR, msg_napi_error)])"
  using napi_never_raises [of Map.empty "''series.csv''" ideal no_parse "Fin (98 / 100)" 3 "''ppt''" "''Date''" "''daily''" 2]
    napi_never_raises [of "[''series.csv'' \<mapsto> table_no_ppt]" "''series.csv''" ideal no_parse "Fin (98 / 100)" 3 "''Date''"
      "''Date''" "''daily''" 2 table_no_ppt "ObjCol (\<lambda>i. Some ''2020-01'')" 0]
  by (simp add: table_no_ppt_def columns_def no_parse_def)

lemma floc_col: "map_of (cols df) c = Some (FloatCol f) \<Longrightarrow> floc df i c = f i"
  by (simp add: floc_def)

lemma napi_numerator_col:
  "map_of (cols df) ppt_field = Some (FloatCol p) \<Longrightarrow> napi_numerator ar df ppt_field k N i = numer ar p k N i"
  by (simp add: napi_numerator_def numer_def floc_col)

lemma napi_row_cols:
  assumes "map_of (cols df) ppt_field = Some (FloatCol p)"
    and "map_of (cols df) ''NAPI'' = Some (FloatCol g)"
  shows "map_of (cols (napi_row ar ppt_field k N decimals mean_ppt den i df))
         = (map_of (cols df))(''NAPI'' \<mapsto> FloatCol (if N \<le> int i then g(i := napi_target ar p k N decimals mean_ppt den i) else g))"
  using assms
  by (auto simp: napi_row_def napi_numerator_col set_floc_def map_of_set_col napi_target_def Let_def)

lemma nrows_napi_row: "nrows (napi_row ar ppt_field k N decimals mean_ppt den i df) = nrows df"
  by (simp add: napi_row_def set_floc_def nrows_set_col Let_def split: option.splits series.splits)

lemma napi_fold_cols:
  assumes "map_of (cols df) ppt_field = Some (FloatCol p)"
    and "map_of (cols df) ''NAPI'' = Some (FloatCol g)"
    and "ppt_field \<noteq> ''NAPI''"
  shows "map_of (cols (fold (napi_row ar ppt_field k N decimals mean_ppt den) [0..<m] df))
         = (map_of (cols df))(''NAPI'' \<mapsto>
              FloatCol (\<lambda>i. if i < m \<and> N \<le> int i then napi_target ar p k N decimals mean_ppt den i else g i))"
proof (induction m)
  case 0
  then show ?case using assms by (simp add: map_upd_triv)
next
  case (Suc m)
  let ?dfm = "fold (napi_row ar ppt_field k N decimals mean_ppt den) [0..<m] df"
  let ?gm = "\<lambda>i. if i < m \<and> N \<le> int i then napi_target ar p k N decimals mean_ppt den i else g i"
  have p: "map_of (cols ?dfm) ppt_field = Some (FloatCol p)"
    using Suc.IH assms by simp
  have g: "map_of (cols ?dfm) ''NAPI'' = Some (FloatCol ?gm)"
    using Suc.IH by simp
  have fn: "(if N \<le> int m then ?gm(m := napi_target ar p k N decimals mean_ppt den m) else ?gm)
            = (\<lambda>i. if i < Suc m \<and> N \<le> int i then napi_target ar p k N decimals mean_ppt den i else g i)"
    by (auto simp: fun_eq_iff less_Suc_eq)
  have "map_of (cols (fold (napi_row ar ppt_field k N decimals mean_ppt den) [0..<Suc m] df))
        = map_of (cols (napi_row ar ppt_field k N decimals mean_ppt den m ?dfm))"
    by simp
  also have "\<dots> = (map_of (cols ?dfm))(''NAPI'' \<mapsto>
       FloatCol (\<lambda>i. if i < Suc m \<and> N \<le> int i then napi_target ar p k N decimals mean_ppt den i else g i))"
    using napi_row_cols [OF p g, of ar k N decimals mean_ppt den m] by (simp only: fn)
  also have "\<dots> = (map_of (cols df))(''NAPI'' \<mapsto>
       FloatCol (\<lambda>i. if i < Suc m \<and> N \<le> int i then napi_target ar p k N decimals mean_ppt den i else g i))"
    by (simp only: Suc.IH fun_upd_upd)
  finally show ?case .
qed

lemma nrows_napi_fold: "nrows (fold (napi_row ar ppt_field k N decimals mean_ppt den) is df) = nrows df"
  by (induction "is" arbitrary: df) (simp_all add: nrows_napi_row)

lemma nrows_napi_loop: "nrows (napi_loop ar ppt_field k N decimals mean_ppt den df) = nrows df"
  by (simp add: napi_loop_def nrows_napi_fold)

lemma napi_loop_cols:
  assumes "map_of (cols df) ppt_field = Some (FloatCol p)"
    and "map_of (cols df) ''NAPI'' = Some (FloatCol (\<lambda>i. NaN))"
    and "ppt_field \<noteq> ''NAPI''"
  shows "map_of (cols (napi_loop ar ppt_field k N decimals mean_ppt den df))
         = (map_of (cols df))(''NAPI'' \<mapsto>
              FloatCol (\<lambda>i. if i < nrows df \<and> N \<le> int i then napi_target ar p k N decimals mean_ppt den i else NaN))"
  unfolding napi_loop_def by (rule napi_fold_cols [OF assms])

text \<open>Whatever the precipitation column is, the loop leaves a column of numbers under NAPI.\<close>

lemma napi_row_keeps_float:
  assumes "map_of (cols df) ''NAPI'' = Some (FloatCol g)"
  shows "\<exists>g'. map_of (cols (napi_row ar ppt_field k N decimals mean_ppt den i df)) ''NAPI'' = Some (FloatCol g')"
  using assms by (simp add: napi_row_def set_floc_def map_of_set_col Let_def)

lemma napi_fold_keeps_float:
  assumes "map_of (cols df) ''NAPI'' = Some (FloatCol g)"
  shows "\<exists>g'. map_of (cols (fold (napi_row ar ppt_field k N decimals mean_ppt den) is df)) ''NAPI'' = Some (FloatCol g')"
  using assms
proof (induction "is" arbitrary: df g)
  case Nil
  then show ?case by simp
next
  case (Cons i "is")
  from napi_row_keeps_float [OF Cons.prems, of ar ppt_field k N decimals mean_ppt den i]
  obtain g' where "map_of (cols (napi_row ar ppt_field k N decimals mean_ppt den i df)) ''NAPI'' = Some (FloatCol g')"
    by blast
  from Cons.IH [OF this] show ?case
    by simp
qed

lemma napi_loop_keeps_float:
  assumes "map_of (cols df) ''NAPI'' = Some (FloatCol g)"
  shows "\<exists>g'. map_of (cols (napi_loop ar ppt_field k N decimals mean_ppt den df)) ''NAPI'' = Some (FloatCol g')"
  unfolding napi_loop_def by (rule napi_fold_keeps_float [OF assms])

lemma conditions_row_cols:
  assumes "map_of (cols df) ''NAPI'' = Some (FloatCol f)"
    and "map_of (cols df) ''Conditions'' = Some (ObjCol g)"
  shows "map_of (cols (conditions_row i df)) = (map_of (cols df))(''Conditions'' \<mapsto> ObjCol (g(i := condition_of (f i))))"
  using assms by (simp add: conditions_row_def set_oloc_def floc_col map_of_set_col)

lemma conditions_fold_cols:
  assumes "map_of (cols df) ''NAPI'' = Some (FloatCol f)"
    and "map_of (cols df) ''Conditions'' = Some (ObjCol g)"
  shows "map_of (cols (fold conditions_row [0..<m] df))
         = (map_of (cols df))(''Conditions'' \<mapsto> ObjCol (\<lambda>i. if i < m then condition_of (f i) else g i))"
proof (induction m)
  case 0
  then show ?case using assms by (simp add: map_upd_triv)
next
  case (Suc m)
  let ?dfm = "fold conditions_row [0..<m] df"
  let ?gm = "\<lambda>i. if i < m then condition_of (f i) else g i"
  have f: "map_of (cols ?dfm) ''NAPI'' = Some (FloatCol f)"
    using Suc.IH assms by simp
  have g: "map_of (cols ?dfm) ''Conditions'' = Some (ObjCol ?gm)"
    using Suc.IH by simp
  have fn: "?gm(m := condition_of (f m)) = (\<lambda>i. if i < Suc m then condition_of (f i) else g i)"
    by (auto simp: fun_eq_iff less_Suc_eq)
  have "map_of (cols (fold conditions_row [0..<Suc m] df)) = map_of (cols (conditions_row m ?dfm))"
    by simp
  also have "\<dots> = (map_of (cols ?dfm))(''Conditions'' \<mapsto> ObjCol (\<lambda>i. if i < Suc m then condition_of (f i) else g i))"
    using conditions_row_cols [OF f g, of m] by (simp only: fn)
  also have "\<dots> = (map_of (cols df))(''Conditions'' \<mapsto> ObjCol (\<lambda>i. if i < Suc m then condition_of (f i) else g i))"
    by (simp only: Suc.IH fun_upd_upd)
  finally show ?case .
qed

lemma conditions_loop_cols:
  assumes "map_of (cols df) ''NAPI'' = Some (FloatCol f)"
  shows "map_of (cols (conditions_loop df))
         = (map_of (cols df))(''Conditions'' \<mapsto> ObjCol (\<lambda>i. if i < nrows df then condition_of (f i) else Some ''nan''))"
proof -
  let ?df4 = "set_col df ''Conditions'' (ObjCol (\<lambda>i. Some ''nan''))"
  have 1: "map_of (cols ?df4) ''NAPI'' = Some (FloatCol f)"
    using assms by (simp add: map_of_set_col)
  have 2: "map_of (cols ?df4) ''Conditions'' = Some (ObjCol (\<lambda>i. Some ''nan''))"
    by (simp add: map_of_set_col)
  show ?thesis
    using conditions_fold_cols [OF 1 2, of "nrows df"]
    by (simp add: conditions_loop_def Let_def nrows_set_col map_of_set_col)
qed

lemma nrows_conditions_row: "nrows (conditions_row i df) = nrows df"
  by (simp add: conditions_row_def set_oloc_def nrows_set_col split: option.splits series.splits)

lemma nrows_conditions_fold: "nrows (fold conditions_row is df) = nrows df"
  by (induction "is" arbitrary: df) (simp_all add: nrows_conditions_row)

lemma nrows_conditions_loop: "nrows (conditions_loop df) = nrows df"
  by (simp add: conditions_loop_def Let_def nrows_conditions_fold nrows_set_col)

text \<open>The loop over \<open>j\<close> computes the weighted sum of the specification.\<close>

lemma upto_Suc_int: "[1..int (Suc n)] = [1..int n] @ [int (Suc n)]"
  using upto_rec2 [of 1 "int (Suc n)"] by simp

lemma fold_wsum:
  "fold (\<lambda>j numerator. fl_add ar numerator (fl_mul ar (p (nat (int i - j))) (pw j))) [1..int n] (Fin 0)
   = wsum ar p pw i n"
proof (induction n)
  case 0
  then show ?case by simp
next
  case (Suc n)
  have "nat (int i - int (Suc n)) = i - Suc n"
    by simp
  then show ?case
    using Suc.IH by (simp only: upto_Suc_int fold_append o_apply fold.simps id_apply wsum.simps)
qed

lemma numer_wsum: "numer ar p k N i = wsum ar p (weight ar k) i (nat N)"
proof (cases "0 \<le> N")
  case True
  then have "N = int (nat N)"
    by simp
  then show ?thesis
    unfolding numer_def using fold_wsum [of ar p i "weight ar k" "nat N"] by simp
next
  case False
  then show ?thesis
    by (simp add: numer_def)
qed

lemma wsum_cong:
  assumes "\<And>m. m < n \<Longrightarrow> p (i - Suc m) = p' (i - Suc m)"
    and "\<And>m. m < n \<Longrightarrow> pw (int (Suc m)) = pw' (int (Suc m))"
  shows "wsum ar p pw i n = wsum ar p' pw' i n"
  using assms by (induction n) simp_all

lemma powers_values:
  "\<forall>j\<in>set js. fl_pow ar k j = Inr (pw j) \<Longrightarrow> powers ar k js = Inr (map pw js)"
  by (induction js) simp_all

lemma napi_denominator_value:
  assumes "\<forall>j\<in>{1..N}. fl_pow ar k j = Inr (pw j)"
  shows "napi_denominator ar k N = Inr (py_sum ar (map pw [1..N]))"
proof -
  have "\<forall>j\<in>set [1..N]. fl_pow ar k j = Inr (pw j)"
    using assms by simp
  then have "powers ar k [1..N] = Inr (map pw [1..N])"
    by (rule powers_values)
  then show ?thesis
    by (simp add: napi_denominator_def)
qed

text \<open>The sorted table holds every column in the row order of the sort.\<close>

lemma map_of_sort_values:
  "map_of (cols (sort_values df d)) c = map_option (reindex (argsort (nrows df) d)) (map_of (cols df) c)"
  by (simp add: sort_values_def map_of_map)

lemma nrows_sort_values: "nrows (sort_values df d) = nrows df"
  by (simp add: sort_values_def)

text \<open>
  A run that has its denominator has every power of the window, so the powers read inside
  the loop are values.
\<close>

lemma weight_defined:
  assumes "napi_denominator ar k N = Inr denominator" and "1 \<le> j" and "j \<le> N"
  shows "fl_pow ar k j = Inr (weight ar k j)"
proof (cases "fl_pow ar k j")
  case (Inl e)
  have "j \<in> set [1..N]"
    using assms(2,3) by simp
  then obtain e' where "powers ar k [1..N] = Inl e'"
    using powers_fail Inl by blast
  then show ?thesis
    using assms(1) by (simp add: napi_denominator_def)
next
  case (Inr w)
  then show ?thesis
    by (simp add: weight_def)
qed

text \<open>
  When a power of the window overflows, on a table whose mean is not zero, the call ends in
  the handler: it returns False and writes nothing.
\<close>

lemma napi_overflow:
  assumes "fs filepath = Some df"
    and "map_of (cols df) date_field = Some dates"
    and "to_datetime parse (date_format resolution) (nrows df) dates = Inr d"
    and "map_of (cols df) ppt_field = Some (FloatCol p0)"
    and "ppt_field \<noteq> date_field"
    and "pd_mean ar (map (\<lambda>i. p0 (argsort (nrows df) d ! i)) [0..<nrows df]) \<noteq> Fin 0"
    and "1 \<le> j" and "j \<le> N" and "fl_pow ar k j = Inl e"
  shows "calculate_napi ar parse fs filepath k N ppt_field date_field resolution decimals
           = (False, fs, [(ERROR, msg_napi_error)])"
proof -
  let ?n = "nrows df"
  let ?perm = "argsort ?n d"
  let ?df1 = "sort_values (set_col df date_field (DateCol d)) d"
  let ?p1 = "\<lambda>i. if i < length ?perm then p0 (?perm ! i) else NaN"
  let ?mean = "pd_mean ar (map (\<lambda>i. p0 (?perm ! i)) [0..<?n])"
  have cols: "ppt_field \<in> set (columns df)" "date_field \<in> set (columns df)"
    using assms(2,4) by (auto simp: columns_def dest: map_of_SomeD intro: rev_image_eqI)
  have sorted: "sorted_table parse df date_field resolution = Inr ?df1"
    using assms(2,3) by (simp add: sorted_table_def)
  have n1: "nrows ?df1 = ?n"
    by (simp add: nrows_sort_values nrows_set_col)
  have c1: "map_of (cols ?df1) ppt_field = Some (FloatCol ?p1)"
    using assms(4,5) by (simp add: map_of_sort_values map_of_set_col nrows_set_col)
  have len: "length ?perm = ?n"
    by (rule argsort_length)
  have mp: "map ?p1 [0..<?n] = map (\<lambda>i. p0 (?perm ! i)) [0..<?n]"
    using len by simp
  have mean1: "series_mean ar (nrows ?df1) (FloatCol ?p1) = Inr ?mean"
    unfolding series_mean_def n1 by (simp only: series.case mp)
  have "j \<in> set [1..N]"
    using assms(7,8) by simp
  then obtain e' where "powers ar k [1..N] = Inl e'"
    using powers_fail assms(9) by blast
  then have den: "napi_denominator ar k N = Inl e'"
    by (simp add: napi_denominator_def)
  show ?thesis
    using assms(1,6) cols sorted c1 mean1 den
    by (simp add: calculate_napi_def napi_body_def read_csv_def)
qed

text \<open>
  C1, as the code has it. Let the table be read, the dates parse, the precipitation column
  hold numbers and be neither the date column nor named NAPI, no power \<open>k^j\<close> of the window
  overflow, and the mean of the column not be zero. With \<open>ppt\<close> the column in the row order
  of the sort by date, \<open>calculate_napi\<close> returns True and writes a table whose NAPI column
  holds, in every row \<open>i \<ge> N\<close>, the index of the specification rounded to \<open>decimals\<close> places
  when the mean times the sum of the powers is not zero, and NaN when that product is
  zero; every row \<open>i < N\<close> holds NaN. The row order is ascending in the dates, NaT last.
\<close>

theorem napi_formula:
  assumes "fs filepath = Some df"
    and "map_of (cols df) date_field = Some dates"
    and "to_datetime parse (date_format resolution) (nrows df) dates = Inr d"
    and "map_of (cols df) ppt_field = Some (FloatCol p0)"
    and "ppt_field \<noteq> date_field" and "ppt_field \<noteq> ''NAPI''"
    and "\<forall>j\<in>{1..N}. fl_pow ar k j = Inr (pw j)"
    and "ppt = (\<lambda>i. p0 (argsort (nrows df) d ! i))"
    and "mean = pd_mean ar (map ppt [0..<nrows df])"
    and "mean \<noteq> Fin 0"
  shows "\<exists>df' napi.
           calculate_napi ar parse fs filepath k N ppt_field date_field resolution decimals
             = (True, fs(filepath \<mapsto> df'), [(INFO, msg_napi_complete filepath)])
         \<and> map_of (cols df') ''NAPI'' = Some (FloatCol napi)
         \<and> (\<forall>i<nrows df.
               napi i = (if N \<le> int i \<and> fne (fl_mul ar mean (py_sum ar (map pw [1..N]))) (Fin 0)
                         then spec_napi ar ppt pw mean N decimals i
                         else NaN))
         \<and> (\<exists>ts ns. argsort (nrows df) d = ts @ ns \<and> sorted (map (\<lambda>i. stamp (d i)) ts)
                    \<and> (\<forall>i\<in>set ts. d i \<noteq> NaT) \<and> (\<forall>i\<in>set ns. d i = NaT))"
proof -
  let ?n = "nrows df"
  let ?perm = "argsort ?n d"
  let ?df1 = "sort_values (set_col df date_field (DateCol d)) d"
  let ?p1 = "\<lambda>i. if i < length ?perm then p0 (?perm ! i) else NaN"
  let ?den = "py_sum ar (map pw [1..N])"
  let ?df2 = "set_col ?df1 ''NAPI'' (FloatCol (\<lambda>i. NaN))"
  let ?napi = "\<lambda>i. if i < ?n \<and> N \<le> int i then napi_target ar ?p1 k N decimals mean ?den i else NaN"
  let ?df3 = "napi_loop ar ppt_field k N decimals mean ?den ?df2"
  let ?df' = "conditions_loop ?df3"
  have cols: "ppt_field \<in> set (columns df)" "date_field \<in> set (columns df)"
    using assms(2,4) by (auto simp: columns_def dest: map_of_SomeD intro: rev_image_eqI)
  have sorted: "sorted_table parse df date_field resolution = Inr ?df1"
    using assms(2,3) by (simp add: sorted_table_def)
  have n1: "nrows ?df1 = ?n"
    by (simp add: nrows_sort_values nrows_set_col)
  have c1: "map_of (cols ?df1) ppt_field = Some (FloatCol ?p1)"
    using assms(4,5) by (simp add: map_of_sort_values map_of_set_col nrows_set_col)
  have len: "length ?perm = ?n"
    by (rule argsort_length)
  have mp: "map ?p1 [0..<?n] = map ppt [0..<?n]"
    using len by (simp add: assms(8))
  have mean1: "series_mean ar (nrows ?df1) (FloatCol ?p1) = Inr mean"
    unfolding series_mean_def n1 assms(9) by (simp only: series.case mp)
  have den: "napi_denominator ar k N = Inr ?den"
    using assms(7) by (rule napi_denominator_value)
  have run: "calculate_napi ar parse fs filepath k N ppt_field date_field resolution decimals
             = (True, fs(filepath \<mapsto> ?df'), [(INFO, msg_napi_complete filepath)])"
    using assms(1,10) cols sorted c1 mean1 den
    by (simp add: calculate_napi_def napi_body_def read_csv_def)
  have c2: "map_of (cols ?df2) ppt_field = Some (FloatCol ?p1)"
    using c1 assms(6) by (simp add: map_of_set_col)
  have g2: "map_of (cols ?df2) ''NAPI'' = Some (FloatCol (\<lambda>i. NaN))"
    by (simp add: map_of_set_col)
  have c3: "map_of (cols ?df3) ''NAPI'' = Some (FloatCol ?napi)"
    using napi_loop_cols [OF c2 g2 assms(6), of ar k N decimals mean ?den]
    by (simp add: nrows_set_col n1)
  have c5: "map_of (cols ?df') ''NAPI'' = Some (FloatCol ?napi)"
    using conditions_loop_cols [OF c3] c3 by simp
  have val: "?napi i = (if N \<le> int i \<and> fne (fl_mul ar mean ?den) (Fin 0)
                        then spec_napi ar ppt pw mean N decimals i else NaN)"
    if i: "i < ?n" for i
  proof (cases "N \<le> int i")
    case True
    have "wsum ar ?p1 (weight ar k) i (nat N) = wsum ar ppt pw i (nat N)"
    proof (rule wsum_cong)
      fix m assume m: "m < nat N"
      then have "i - Suc m < length ?perm"
        using i len by simp
      then show "?p1 (i - Suc m) = ppt (i - Suc m)"
        by (simp add: assms(8))
      have "int (Suc m) \<in> {1..N}"
        using m by auto
      then show "weight ar k (int (Suc m)) = pw (int (Suc m))"
        using assms(7) by (simp add: weight_def)
    qed
    then show ?thesis
      using True i by (simp add: napi_target_def spec_napi_def numer_wsum)
  next
    case False
    then show ?thesis by simp
  qed
  show ?thesis
    using run c5 val argsort_ascending [of ?n d] by blast
qed


lemmas ideal_defs = ideal_def ideal_add_def ideal_mul_def ideal_div_def ideal_pow_def ideal_sum_def ideal_round_def
  ideal_pd_mean_def ideal_min_def ideal_max_def ideal_mean_def ideal_median_def is_fin_def

lemmas eval_defs = calculate_napi_def napi_body_def read_csv_def columns_def sorted_table_def to_datetime_def
  date_format_def set_col_def sort_values_def argsort_def col_of_def series_mean_def napi_loop_def napi_row_def
  napi_numerator_def napi_denominator_def weight_def py_sum_def conditions_loop_def conditions_row_def
  condition_of_def floc_def set_floc_def set_oloc_def fne_def isnan_def ideal_defs
  upt_rec numeral_2_eq_2 numeral_3_eq_3 upto.simps Let_def

text \<open>
  C1 as stated fails: with the decay constant 0 and a window of one row, the mean of the
  column is 3/2, the call returns True, and row 1 (which is not below the window) holds
  NaN. Likewise with the decay constant -1 and a window of two rows on a column of mean 2:
  the weights sum to zero and row 2 holds NaN.
\<close>

theorem napi_defined_counterexample:
  "series_mean ideal (nrows table_k0) (the (map_of (cols table_k0) ''ppt'')) = Inr (Fin (3 / 2))
   \<and> fst (calculate_napi ideal num_parse [''series.csv'' \<mapsto> table_k0] ''series.csv'' (Fin 0) 1 ''ppt'' ''Date'' ''daily'' 2)
   \<and> floc (the (fst (snd (calculate_napi ideal num_parse [''series.csv'' \<mapsto> table_k0] ''series.csv'' (Fin 0) 1
                              ''ppt'' ''Date'' ''daily'' 2)) ''series.csv'')) 1 ''NAPI'' = NaN
   \<and> series_mean ideal (nrows table_three) (the (map_of (cols table_three) ''ppt'')) = Inr (Fin 2)
   \<and> fst (calculate_napi ideal num_parse [''series.csv'' \<mapsto> table_three] ''series.csv'' (Fin (- 1)) 2 ''ppt'' ''Date'' ''daily'' 2)
   \<and> floc (the (fst (snd (calculate_napi ideal num_parse [''series.csv'' \<mapsto> table_three] ''series.csv'' (Fin (- 1)) 2
                              ''ppt'' ''Date'' ''daily'' 2)) ''series.csv'')) 2 ''NAPI'' = NaN"
  by (simp add: table_k0_def table_three_def eval_defs)

theorem napi_formula_witness:
  "\<exists>df' napi.
     calculate_napi ideal num_parse [''series.csv'' \<mapsto> table_three] ''series.csv'' (Fin (1 / 2)) 2 ''ppt'' ''Date'' ''daily'' 2
       = (True, [''series.csv'' \<mapsto> df'], [(INFO, msg_napi_complete ''series.csv'')])
     \<and> map_of (cols df') ''NAPI'' = Some (FloatCol napi)
     \<and> napi 0 = NaN \<and> napi 1 = NaN \<and> napi 2 = Fin (117 / 100)"
proof -
  let ?dates = "FloatCol (col_of NaN [Fin 2, Fin 1, Fin 3])"
  let ?d = "projr (to_datetime num_parse (date_format ''daily'') 3 ?dates)"
  let ?p0 = "col_of NaN [Fin 3, Fin 1, Fin 2]"
  let ?pw = "\<lambda>j. Fin ((1 / 2) ^ nat j)"
  let ?ppt = "\<lambda>i. ?p0 (argsort 3 ?d ! i)"
  let ?mean = "pd_mean ideal (map ?ppt [0..<3])"
  have n: "nrows table_three = 3"
    by (simp add: table_three_def)
  have f: "[''series.csv'' \<mapsto> table_three] ''series.csv'' = Some table_three"
    by simp
  have c: "map_of (cols table_three) ''Date'' = Some ?dates"
    "map_of (cols table_three) ''ppt'' = Some (FloatCol ?p0)"
    by (simp_all add: table_three_def)
  have t: "to_datetime num_parse (date_format ''daily'') (nrows table_three) ?dates = Inr ?d"
    unfolding n by (simp add: to_datetime_def date_format_def col_of_def upt_rec numeral_3_eq_3)
  have e: "''ppt'' \<noteq> ''Date''" "''ppt'' \<noteq> ''NAPI''"
    by simp_all
  have i: "{1..2::int} = {1, 2}"
    by auto
  have p: "\<forall>j\<in>{1..2}. fl_pow ideal (Fin (1 / 2)) j = Inr (?pw j)"
    unfolding i by (simp add: ideal_defs power2_eq_square)
  have s: "argsort 3 ?d = [1, 0, 2]"
    by (simp add: to_datetime_def date_format_def col_of_def argsort_def upt_rec numeral_3_eq_3)
  have v: "?ppt 0 = Fin 1" "?ppt 1 = Fin 3" "?ppt 2 = Fin 2" "?ppt (Suc 0) = Fin 3"
    unfolding s by (simp_all add: col_of_def)
  have u: "[0..<3] = [0, 1, 2::nat]"
    by (simp add: upt_rec)
  have m: "?mean = Fin 2"
    unfolding u by (simp add: v ideal_defs)
  have z: "?mean \<noteq> Fin 0"
    unfolding m by simp
  have den: "py_sum ideal (map ?pw [1..2]) = Fin (3 / 4)"
    by (simp add: py_sum_def ideal_defs upto.simps power2_eq_square)
  have w: "wsum ideal ?ppt ?pw 2 (nat 2) = Fin (7 / 4)"
  proof -
    have "wsum ideal ?ppt ?pw 2 (Suc (Suc 0))
          = fl_add ideal (fl_add ideal (Fin 0) (fl_mul ideal (?ppt 1) (?pw 1))) (fl_mul ideal (?ppt 0) (?pw 2))"
      by (simp add: numeral_2_eq_2)
    also have "\<dots> = Fin (7 / 4)"
      unfolding v by (simp add: ideal_defs power2_eq_square)
    finally show ?thesis
      by (simp add: numeral_2_eq_2)
  qed
  have rnd: "round_decimal (7 / 6) 2 = 117 / 100"
    by code_simp
  have val: "spec_napi ideal ?ppt ?pw ?mean 2 2 2 = Fin (117 / 100)"
    unfolding spec_napi_def w den m by (simp add: ideal_defs rnd)
  have g: "fne (fl_mul ideal ?mean (py_sum ideal (map ?pw [1..2]))) (Fin 0)"
    unfolding den m by (simp add: ideal_defs fne_def isnan_def)
  obtain df' napi where
    run: "calculate_napi ideal num_parse [''series.csv'' \<mapsto> table_three] ''series.csv'' (Fin (1 / 2)) 2 ''ppt'' ''Date'' ''daily'' 2
            = (True, [''series.csv'' \<mapsto> table_three, ''series.csv'' \<mapsto> df'], [(INFO, msg_napi_complete ''series.csv'')])"
    and col: "map_of (cols df') ''NAPI'' = Some (FloatCol napi)"
    and rows: "\<forall>i<3. napi i = (if 2 \<le> int i \<and> fne (fl_mul ideal ?mean (py_sum ideal (map ?pw [1..2]))) (Fin 0)
                                    then spec_napi ideal ?ppt ?pw ?mean 2 2 i else NaN)"
    using napi_formula [where fs = "[''series.csv'' \<mapsto> table_three]" and filepath = "''series.csv''"
        and ar = ideal and k = "Fin (1 / 2)" and N = 2 and decimals = 2 and pw = ?pw and ppt = ?ppt and mean = ?mean,
        OF f c(1) t c(2) e p _ _ z]
    unfolding n by blast
  have "napi 0 = NaN" "napi 1 = NaN"
    using rows by simp_all
  moreover have "napi 2 = Fin (117 / 100)"
    using rows g val by simp
  ultimately show ?thesis
    using run col by auto
qed

text \<open>An overflow of the power: the decay constant \<open>10^200\<close> with a window of six rows.\<close>

lemma napi_overflow_example:
  "calculate_napi ideal num_parse [''series.csv'' \<mapsto> table_three] ''series.csv'' (Fin (10 ^ 200)) 6 ''ppt'' ''Date'' ''daily'' 2
     = (False, [''series.csv'' \<mapsto> table_three], [(ERROR, msg_napi_error)])"
  by (simp add: table_three_def eval_defs)

text \<open>
  C5. When the mean of the precipitation column of the sorted table is exactly zero,
  \<open>calculate_napi\<close> returns True after one warning record and no error record, and
  writes the sorted table with a NAPI column that is NaN in every row and no other change.
\<close>

theorem napi_zero_mean:
  assumes "fs filepath = Some df"
    and "ppt_field \<in> set (columns df)" and "date_field \<in> set (columns df)"
    and "sorted_table parse df date_field resolution = Inr df1"
    and "map_of (cols df1) ppt_field = Some ppt"
    and "series_mean ar (nrows df1) ppt = Inr (Fin 0)"
  shows "\<exists>df'. calculate_napi ar parse fs filepath k N ppt_field date_field resolution decimals
                  = (True, fs(filepath \<mapsto> df'), [(WARNING, msg_zero_mean)])
               \<and> map_of (cols df') = (map_of (cols df1))(''NAPI'' \<mapsto> FloatCol (\<lambda>i. NaN))
               \<and> nrows df' = nrows df1"
proof -
  let ?df' = "set_col df1 ''NAPI'' (FloatCol (\<lambda>i. NaN))"
  have "calculate_napi ar parse fs filepath k N ppt_field date_field resolution decimals
          = (True, fs(filepath \<mapsto> ?df'), [(WARNING, msg_zero_mean)])"
    using assms by (cases ppt) (simp_all add: calculate_napi_def napi_body_def read_csv_def series_mean_def)
  moreover have "map_of (cols ?df') = (map_of (cols df1))(''NAPI'' \<mapsto> FloatCol (\<lambda>i. NaN))"
    by (rule map_of_set_col)
  moreover have "nrows ?df' = nrows df1"
    by (rule nrows_set_col)
  ultimately show ?thesis
    by blast
qed

theorem napi_zero_mean_witness:
  "\<exists>df'. calculate_napi ideal num_parse [''series.csv'' \<mapsto> table_zero] ''series.csv'' (Fin (98 / 100)) 1 ''ppt'' ''Date'' ''daily'' 2
            = (True, [''series.csv'' \<mapsto> df'], [(WARNING, msg_zero_mean)])
         \<and> floc df' 0 ''NAPI'' = NaN \<and> floc df' 1 ''NAPI'' = NaN
         \<and> map_of (cols df') ''Conditions'' = None \<and> nrows df' = 2"
proof -
  let ?df1 = "projr (sorted_table num_parse table_zero ''Date'' ''daily'')"
  let ?ppt = "the (map_of (cols ?df1) ''ppt'')"
  have s: "sorted_table num_parse table_zero ''Date'' ''daily'' = Inr ?df1"
    by (simp add: table_zero_def eval_defs)
  have c: "map_of (cols ?df1) ''ppt'' = Some ?ppt"
    by (simp add: table_zero_def eval_defs)
  have m: "series_mean ideal (nrows ?df1) ?ppt = Inr (Fin 0)"
    by (simp add: table_zero_def eval_defs)
  have n: "nrows ?df1 = 2" and k: "map_of (cols ?df1) ''Conditions'' = None"
    by (simp_all add: table_zero_def eval_defs)
  show ?thesis
    using napi_zero_mean [where fs = "[''series.csv'' \<mapsto> table_zero]" and filepath = "''series.csv''"
        and df = table_zero and date_field = "''Date''" and k = "Fin (98 / 100)" and N = 1 and decimals = 2
        and ar = ideal, OF _ _ _ s c m] n k
    by (auto simp: table_zero_def columns_def floc_def)
qed


lemma condition_of_spec: "condition_of v = spec_label v"
  by (cases v) (auto simp: condition_of_def spec_label_def)

lemma labelled_table:
  assumes "map_of (cols df) ''NAPI'' = Some (FloatCol f)"
  shows "map_of (cols (conditions_loop df)) ''NAPI'' = Some (FloatCol f)"
    and "map_of (cols (conditions_loop df)) ''Conditions''
         = Some (ObjCol (\<lambda>i. if i < nrows df then condition_of (f i) else Some ''nan''))"
  using conditions_loop_cols [OF assms] assms by simp_all

lemma napi_loop_init_float:
  "\<exists>g. map_of (cols (napi_loop ar ppt_field k N decimals mean_ppt den (set_col df1 ''NAPI'' (FloatCol (\<lambda>i. NaN)))))
          ''NAPI'' = Some (FloatCol g)"
  by (rule napi_loop_keeps_float) (simp add: map_of_set_col)

lemma napi_body_success:
  assumes "napi_body ar parse fs filepath k N ppt_field date_field resolution decimals = Inr (True, fs', lg)"
    and "lg \<noteq> [(WARNING, msg_zero_mean)]"
  shows "\<exists>df2 f. fs' = fs(filepath \<mapsto> conditions_loop df2) \<and> map_of (cols df2) ''NAPI'' = Some (FloatCol f)"
proof -
  have a: "\<exists>df2 f. fs(filepath \<mapsto> conditions_loop (set_col df1 ''NAPI'' (FloatCol (\<lambda>i. NaN))))
                     = fs(filepath \<mapsto> conditions_loop df2) \<and> map_of (cols df2) ''NAPI'' = Some (FloatCol f)" for df1
    by (intro exI conjI) (rule refl, simp add: map_of_set_col)
  have b: "\<exists>df2 f. fs(filepath \<mapsto> conditions_loop
                       (napi_loop ar ppt_field k N decimals m den (set_col df1 ''NAPI'' (FloatCol (\<lambda>i. NaN)))))
                     = fs(filepath \<mapsto> conditions_loop df2) \<and> map_of (cols df2) ''NAPI'' = Some (FloatCol f)"
    for df1 m den
    using napi_loop_init_float [of ar ppt_field k N decimals m den df1] by blast
  show ?thesis
    using assms a b unfolding napi_body_def
    by (auto split: sum.splits option.splits series.splits if_splits)
qed

text \<open>
  C4. Whenever \<open>calculate_napi\<close> returns True on the path that computes the index (the
  path that does not end with the warning of a zero mean), the table it writes has a NAPI
  column and a Conditions column, and the Conditions cell of every row is undefined when
  the NAPI cell is NaN, and otherwise normal when the index is less than 1e-6 away from 1,
  wet when it is greater than 1, dry when it is less than 1. In particular 1 + 1e-7 and
  1 - 1e-7 are normal, 1.000002 is wet and 0.999 is dry.
\<close>

theorem conditions_labels:
  assumes "calculate_napi ar parse fs filepath k N ppt_field date_field resolution decimals = (True, fs', lg)"
    and "lg \<noteq> [(WARNING, msg_zero_mean)]"
  shows "\<exists>df' napi g.
           fs' filepath = Some df'
         \<and> map_of (cols df') ''NAPI'' = Some (FloatCol napi)
         \<and> map_of (cols df') ''Conditions'' = Some (ObjCol g)
         \<and> (\<forall>i<nrows df'. g i = spec_label (napi i))
         \<and> condition_of (Fin (1 + 1 / 10 ^ 7)) = Some ''normal''
         \<and> condition_of (Fin (1 - 1 / 10 ^ 7)) = Some ''normal''
         \<and> condition_of (Fin (1000002 / 1000000)) = Some ''wet''
         \<and> condition_of (Fin (999 / 1000)) = Some ''dry''
         \<and> condition_of NaN = None"
proof -
  have "napi_body ar parse fs filepath k N ppt_field date_field resolution decimals = Inr (True, fs', lg)"
    using assms(1) by (auto simp: calculate_napi_def split: sum.splits)
  from napi_body_success [OF this assms(2)] obtain df2 f where
    fs': "fs' = fs(filepath \<mapsto> conditions_loop df2)" and f: "map_of (cols df2) ''NAPI'' = Some (FloatCol f)"
    by blast
  let ?g = "\<lambda>i. if i < nrows df2 then condition_of (f i) else Some ''nan''"
  have "fs' filepath = Some (conditions_loop df2)"
    by (simp add: fs')
  moreover note labelled_table [OF f]
  moreover have "\<forall>i<nrows (conditions_loop df2). ?g i = spec_label (f i)"
    by (simp add: nrows_conditions_loop condition_of_spec)
  moreover have "condition_of (Fin (1 + 1 / 10 ^ 7)) = Some ''normal''"
    "condition_of (Fin (1 - 1 / 10 ^ 7)) = Some ''normal''"
    "condition_of (Fin (1000002 / 1000000)) = Some ''wet''"
    "condition_of (Fin (999 / 1000)) = Some ''dry''"
    "condition_of NaN = None"
    by (simp_all add: condition_of_def)
  ultimately show ?thesis
    by blast
qed

lemma round_example: "round_decimal (7 / 6) 2 = 117 / 100"
  by code_simp

lemma example_run:
  "fst (calculate_napi ideal num_parse [''series.csv'' \<mapsto> table_three] ''series.csv'' (Fin (1 / 2)) 2 ''ppt'' ''Date'' ''daily'' 2)"
  "snd (snd (calculate_napi ideal num_parse [''series.csv'' \<mapsto> table_three] ''series.csv'' (Fin (1 / 2)) 2 ''ppt'' ''Date'' ''daily'' 2))
     = [(INFO, msg_napi_complete ''series.csv'')]"
  "floc (the (fst (snd (calculate_napi ideal num_parse [''series.csv'' \<mapsto> table_three] ''series.csv'' (Fin (1 / 2)) 2
                          ''ppt'' ''Date'' ''daily'' 2)) ''series.csv'')) 0 ''NAPI'' = NaN"
  "floc (the (fst (snd (calculate_napi ideal num_parse [''series.csv'' \<mapsto> table_three] ''series.csv'' (Fin (1 / 2)) 2
                          ''ppt'' ''Date'' ''daily'' 2)) ''series.csv'')) 2 ''NAPI'' = Fin (117 / 100)"
  "nrows (the (fst (snd (calculate_napi ideal num_parse [''series.csv'' \<mapsto> table_three] ''series.csv'' (Fin (1 / 2)) 2
                          ''ppt'' ''Date'' ''daily'' 2)) ''series.csv'')) = 3"
  by (simp_all add: table_three_def eval_defs round_example power2_eq_square)

theorem conditions_labels_witness:
  "\<exists>df' g. fst (snd (calculate_napi ideal num_parse [''series.csv'' \<mapsto> table_three] ''series.csv'' (Fin (1 / 2)) 2
                        ''ppt'' ''Date'' ''daily'' 2)) ''series.csv'' = Some df'
          \<and> map_of (cols df') ''Conditions'' = Some (ObjCol g)
          \<and> floc df' 2 ''NAPI'' = Fin (117 / 100)
          \<and> g 0 = None \<and> g 2 = Some ''wet''"
proof -
  let ?r = "calculate_napi ideal num_parse [''series.csv'' \<mapsto> table_three] ''series.csv'' (Fin (1 / 2)) 2
              ''ppt'' ''Date'' ''daily'' 2"
  have run: "?r = (True, fst (snd ?r), [(INFO, msg_napi_complete ''series.csv'')])"
    using example_run(1,2) by (cases ?r) simp
  have neq: "[(INFO, msg_napi_complete ''series.csv'')] \<noteq> [(WARNING, msg_zero_mean)]"
    by simp
  from conditions_labels [OF run neq] obtain df' napi g where
    df': "fst (snd ?r) ''series.csv'' = Some df'"
    and napi: "map_of (cols df') ''NAPI'' = Some (FloatCol napi)"
    and g: "map_of (cols df') ''Conditions'' = Some (ObjCol g)"
    and lab: "\<forall>i<nrows df'. g i = spec_label (napi i)"
    by blast
  have n: "nrows df' = 3" and v0: "floc df' 0 ''NAPI'' = NaN" and v2: "floc df' 2 ''NAPI'' = Fin (117 / 100)"
    using example_run(3-5) df' by simp_all
  have "napi 0 = NaN" "napi 2 = Fin (117 / 100)"
    using v0 v2 by (simp_all add: floc_col [OF napi])
  then have "g 0 = None" "g 2 = Some ''wet''"
    using lab n by (simp_all add: spec_label_def)
  then show ?thesis
    using df' g v2 by blast
qed


section \<open>Properties of the statistics\<close>

text \<open>
  C6. For a sample that is not empty and not all NaN: for precipitation with unit \<open>in\<close>
  each of minimum, maximum, mean and median is the raw statistic divided by 25.40 and then
  rounded, and with any other unit the raw statistic rounded; for a variable whose code
  begins with \<open>t\<close> and unit \<open>f\<close> each is the raw statistic times 9, over 5, plus 32, then
  rounded, and with any other unit the raw statistic rounded; for any other variable each
  is the raw statistic rounded, and one warning record is logged. No case raises.
\<close>

theorem stats_unit_conversion:
  assumes "sample \<noteq> []" and "\<not> list_all isnan sample"
  shows
    "(climate = ''ppt'' \<and> unit = ''in'' \<longrightarrow>
        calculate_stats ar sample climate unit decimals =
          (\<lparr>stat_min = fl_round ar (fl_div ar (np_min ar sample) (Fin (254 / 10))) decimals,
            stat_max = fl_round ar (fl_div ar (np_max ar sample) (Fin (254 / 10))) decimals,
            stat_mean = fl_round ar (fl_div ar (np_mean ar sample) (Fin (254 / 10))) decimals,
            stat_median = fl_round ar (fl_div ar (np_median ar sample) (Fin (254 / 10))) decimals\<rparr>, []))
   \<and> (climate = ''ppt'' \<and> unit \<noteq> ''in'' \<longrightarrow>
        calculate_stats ar sample climate unit decimals =
          (\<lparr>stat_min = fl_round ar (np_min ar sample) decimals,
            stat_max = fl_round ar (np_max ar sample) decimals,
            stat_mean = fl_round ar (np_mean ar sample) decimals,
            stat_median = fl_round ar (np_median ar sample) decimals\<rparr>, []))
   \<and> (startswith climate ''t'' \<and> unit = ''f'' \<longrightarrow>
        calculate_stats ar sample climate unit decimals =
          (\<lparr>stat_min = fl_round ar (fl_add ar (fl_div ar (fl_mul ar (np_min ar sample) (Fin 9)) (Fin 5)) (Fin 32)) decimals,
            stat_max = fl_round ar (fl_add ar (fl_div ar (fl_mul ar (np_max ar sample) (Fin 9)) (Fin 5)) (Fin 32)) decimals,
            stat_mean = fl_round ar (fl_add ar (fl_div ar (fl_mul ar (np_mean ar sample) (Fin 9)) (Fin 5)) (Fin 32)) decimals,
            stat_median =
              fl_round ar (fl_add ar (fl_div ar (fl_mul ar (np_median ar sample) (Fin 9)) (Fin 5)) (Fin 32)) decimals\<rparr>,
           []))
   \<and> (startswith climate ''t'' \<and> unit \<noteq> ''f'' \<longrightarrow>
        calculate_stats ar sample climate unit decimals =
          (\<lparr>stat_min = fl_round ar (np_min ar sample) decimals,
            stat_max = fl_round ar (np_max ar sample) decimals,
            stat_mean = fl_round ar (np_mean ar sample) decimals,
            stat_median = fl_round ar (np_median ar sample) decimals\<rparr>, []))
   \<and> (climate \<noteq> ''ppt'' \<and> \<not> startswith climate ''t'' \<longrightarrow>
        calculate_stats ar sample climate unit decimals =
          (\<lparr>stat_min = fl_round ar (np_min ar sample) decimals,
            stat_max = fl_round ar (np_max ar sample) decimals,
            stat_mean = fl_round ar (np_mean ar sample) decimals,
            stat_median = fl_round ar (np_median ar sample) decimals\<rparr>,
           [(WARNING, msg_generic climate)]))"
proof -
  have t: "startswith climate ''t'' \<Longrightarrow> climate \<noteq> ''ppt''"
    by (auto simp: startswith_def)
  show ?thesis
    using assms t by (simp add: calculate_stats_def Let_def to_inches_def to_fahrenheit_def)
qed

theorem stats_unit_conversion_witness:
  "calculate_stats ideal [Fin 1, Fin 2] ''ppt'' ''in'' 2
     = (\<lparr>stat_min = Fin (4 / 100), stat_max = Fin (8 / 100), stat_mean = Fin (6 / 100), stat_median = Fin (6 / 100)\<rparr>, [])
   \<and> calculate_stats ideal [Fin (5 / 16), Fin (21 / 16)] ''ppt'' ''mm'' 2
     = (\<lparr>stat_min = Fin (31 / 100), stat_max = Fin (131 / 100), stat_mean = Fin (81 / 100),
         stat_median = Fin (81 / 100)\<rparr>, [])
   \<and> calculate_stats ideal [Fin (5 / 16), Fin (21 / 16)] ''tmean'' ''f'' 2
     = (\<lparr>stat_min = Fin (3256 / 100), stat_max = Fin (3436 / 100), stat_mean = Fin (3346 / 100),
         stat_median = Fin (3346 / 100)\<rparr>, [])
   \<and> calculate_stats ideal [Fin (5 / 16), Fin (21 / 16)] ''tmean'' ''c'' 2
     = (\<lparr>stat_min = Fin (31 / 100), stat_max = Fin (131 / 100), stat_mean = Fin (81 / 100),
         stat_median = Fin (81 / 100)\<rparr>, [])
   \<and> calculate_stats ideal [Fin (5 / 16), Fin (21 / 16)] ''vpdmax'' ''in'' 2
     = (\<lparr>stat_min = Fin (31 / 100), stat_max = Fin (131 / 100), stat_mean = Fin (81 / 100),
         stat_median = Fin (81 / 100)\<rparr>, [(WARNING, msg_generic ''vpdmax'')])"
proof -
  let ?a = "[Fin 1, Fin 2]"
  let ?b = "[Fin (5 / 16), Fin (21 / 16)]"
  have a: "fl_round ideal (fl_div ideal (np_min ideal ?a) (Fin (254 / 10))) 2 = Fin (4 / 100)"
    "fl_round ideal (fl_div ideal (np_max ideal ?a) (Fin (254 / 10))) 2 = Fin (8 / 100)"
    "fl_round ideal (fl_div ideal (np_mean ideal ?a) (Fin (254 / 10))) 2 = Fin (6 / 100)"
    "fl_round ideal (fl_div ideal (np_median ideal ?a) (Fin (254 / 10))) 2 = Fin (6 / 100)"
    by code_simp+
  have b: "fl_round ideal (np_min ideal ?b) 2 = Fin (31 / 100)"
    "fl_round ideal (np_max ideal ?b) 2 = Fin (131 / 100)"
    "fl_round ideal (np_mean ideal ?b) 2 = Fin (81 / 100)"
    "fl_round ideal (np_median ideal ?b) 2 = Fin (81 / 100)"
    by code_simp+
  have c: "fl_round ideal (fl_add ideal (fl_div ideal (fl_mul ideal (np_min ideal ?b) (Fin 9)) (Fin 5)) (Fin 32)) 2
           = Fin (3256 / 100)"
    "fl_round ideal (fl_add ideal (fl_div ideal (fl_mul ideal (np_max ideal ?b) (Fin 9)) (Fin 5)) (Fin 32)) 2
           = Fin (3436 / 100)"
    "fl_round ideal (fl_add ideal (fl_div ideal (fl_mul ideal (np_mean ideal ?b) (Fin 9)) (Fin 5)) (Fin 32)) 2
           = Fin (3346 / 100)"
    "fl_round ideal (fl_add ideal (fl_div ideal (fl_mul ideal (np_median ideal ?b) (Fin 9)) (Fin 5)) (Fin 32)) 2
           = Fin (3346 / 100)"
    by code_simp+
  have h: "?a \<noteq> []" "\<not> list_all isnan ?a" "?b \<noteq> []" "\<not> list_all isnan ?b"
    by (simp_all add: isnan_def)
  note t1 = stats_unit_conversion [OF h(1,2), of "''ppt''" "''in''" ideal 2, unfolded a]
  note t2 = stats_unit_conversion [OF h(3,4), of "''ppt''" "''mm''" ideal 2, unfolded b]
  note t3 = stats_unit_conversion [OF h(3,4), of "''tmean''" "''f''" ideal 2, unfolded c]
  note t4 = stats_unit_conversion [OF h(3,4), of "''tmean''" "''c''" ideal 2, unfolded b]
  note t5 = stats_unit_conversion [OF h(3,4), of "''vpdmax''" "''in''" ideal 2, unfolded b]
  have "calculate_stats ideal ?a ''ppt'' ''in'' 2
     = (\<lparr>stat_min = Fin (4 / 100), stat_max = Fin (8 / 100), stat_mean = Fin (6 / 100), stat_median = Fin (6 / 100)\<rparr>, [])"
    using t1 by simp
  moreover have "calculate_stats ideal ?b ''ppt'' ''mm'' 2
     = (\<lparr>stat_min = Fin (31 / 100), stat_max = Fin (131 / 100), stat_mean = Fin (81 / 100),
         stat_median = Fin (81 / 100)\<rparr>, [])"
    using t2 by simp
  moreover have "calculate_stats ideal ?b ''tmean'' ''f'' 2
     = (\<lparr>stat_min = Fin (3256 / 100), stat_max = Fin (3436 / 100), stat_mean = Fin (3346 / 100),
         stat_median = Fin (3346 / 100)\<rparr>, [])"
    using t3 by (simp add: startswith_def)
  moreover have "calculate_stats ideal ?b ''tmean'' ''c'' 2
     = (\<lparr>stat_min = Fin (31 / 100), stat_max = Fin (131 / 100), stat_mean = Fin (81 / 100),
         stat_median = Fin (81 / 100)\<rparr>, [])"
    using t4 by (simp add: startswith_def)
  moreover have "calculate_stats ideal ?b ''vpdmax'' ''in'' 2
     = (\<lparr>stat_min = Fin (31 / 100), stat_max = Fin (131 / 100), stat_mean = Fin (81 / 100),
         stat_median = Fin (81 / 100)\<rparr>, [(WARNING, msg_generic ''vpdmax'')])"
    using t5 by (simp add: startswith_def)
  ultimately show ?thesis
    by simp
qed


section \<open>Properties of the statistics table\<close>

lemma climate_rows_append:
  "climate_rows ar rf rfs p c u d (xs @ ys) (rows, lg) =
     (case climate_rows ar rf rfs p c u d xs (rows, lg) of
        (None, rows', lg') \<Rightarrow> climate_rows ar rf rfs p c u d ys (rows', lg')
      | (Some e, rows', lg') \<Rightarrow> (Some e, rows', lg'))"
  by (induction xs arbitrary: rows lg) (auto split: prod.splits sum.splits option.splits)

lemma climate_rows_log_free:
  "fst (climate_rows ar rf rfs p c u d xs (rows, lg)) = fst (climate_rows ar rf rfs p c u d xs (rows, lg2))
   \<and> fst (snd (climate_rows ar rf rfs p c u d xs (rows, lg))) = fst (snd (climate_rows ar rf rfs p c u d xs (rows, lg2)))"
  by (induction xs arbitrary: rows lg lg2) (auto split: prod.splits sum.splits option.splits)

lemma process_raster_skip:
  assumes "rfs raster = Some src" and "data_series ar src = [] \<or> list_all isnan (data_series ar src)"
  shows "process_raster ar rf rfs p c u d raster = (Inr None, [(WARNING, msg_skip raster)])"
  using assms by (auto simp: process_raster_def Let_def)

lemma skip_in_middle:
  assumes "\<And>rest rows lg. climate_rows ar rf rfs p c u d (raster # rest) (rows, lg)
             = climate_rows ar rf rfs p c u d rest (rows, lg @ w)"
  shows "fst (climate_rows ar rf rfs p c u d (pre @ raster # post) (r0, l0))
           = fst (climate_rows ar rf rfs p c u d (pre @ post) (r0, l0))
       \<and> fst (snd (climate_rows ar rf rfs p c u d (pre @ raster # post) (r0, l0)))
           = fst (snd (climate_rows ar rf rfs p c u d (pre @ post) (r0, l0)))"
proof (cases "climate_rows ar rf rfs p c u d pre (r0, l0)")
  case (fields e rows' lg')
  show ?thesis
  proof (cases e)
    case None
    then show ?thesis
      using fields climate_rows_log_free [of ar rf rfs p c u d post rows' "lg' @ w" lg']
      by (simp add: climate_rows_append assms del: climate_rows.simps)
  next
    case (Some a)
    then show ?thesis
      using fields by (simp add: climate_rows_append)
  qed
qed

lemma climate_data_status:
  "fst (climate_data ar rf rfs csv_dir csv_file xs c u d)
     = fst (climate_rows ar rf rfs (path_join csv_dir csv_file) c u d xs
              ([], [(INFO, ''CSV header written to: '' @ path_join csv_dir csv_file)]))"
  by (simp add: climate_data_def Let_def split: prod.splits option.splits)

lemma climate_data_rows:
  "fst (snd (climate_data ar rf rfs csv_dir csv_file xs c u d))
     = fst (snd (climate_rows ar rf rfs (path_join csv_dir csv_file) c u d xs
              ([], [(INFO, ''CSV header written to: '' @ path_join csv_dir csv_file)])))"
  by (simp add: climate_data_def Let_def split: prod.splits option.splits)

text \<open>
  C7. A raster that opens and whose sample after the nodata filter is empty or all NaN
  gives no row and one warning record, and raises nothing; the loop goes on with the
  rasters that follow, and the table of a run has the same rows, and the run the same
  outcome, as without that raster.
\<close>

theorem empty_sample_skipped:
  assumes "rfs raster = Some src"
    and "data_series ar src = [] \<or> list_all isnan (data_series ar src)"
  shows "process_raster ar reformat rfs csvPath climate unit decimals raster = (Inr None, [(WARNING, msg_skip raster)])
       \<and> climate_rows ar reformat rfs csvPath climate unit decimals (raster # rest) (rows, lg)
         = climate_rows ar reformat rfs csvPath climate unit decimals rest (rows, lg @ [(WARNING, msg_skip raster)])
       \<and> fst (climate_data ar reformat rfs csv_dir csv_file (pre @ raster # post) climate unit decimals)
         = fst (climate_data ar reformat rfs csv_dir csv_file (pre @ post) climate unit decimals)
       \<and> fst (snd (climate_data ar reformat rfs csv_dir csv_file (pre @ raster # post) climate unit decimals))
         = fst (snd (climate_data ar reformat rfs csv_dir csv_file (pre @ post) climate unit decimals))"
proof (intro conjI)
  have skip: "process_raster ar reformat rfs p climate unit decimals raster = (Inr None, [(WARNING, msg_skip raster)])"
    for p
    using assms by (rule process_raster_skip [where rfs = rfs and raster = raster])
  have step: "climate_rows ar reformat rfs p climate unit decimals (raster # rest) (rows, lg)
              = climate_rows ar reformat rfs p climate unit decimals rest (rows, lg @ [(WARNING, msg_skip raster)])"
    for p rest rows lg
    by (simp add: skip)
  note mid = skip_in_middle [of ar reformat rfs "path_join csv_dir csv_file" climate unit decimals raster
      "[(WARNING, msg_skip raster)]" pre post "[]"
      "[(INFO, ''CSV header written to: '' @ path_join csv_dir csv_file)]", OF step]
  show "process_raster ar reformat rfs csvPath climate unit decimals raster = (Inr None, [(WARNING, msg_skip raster)])"
    by (rule skip)
  show "climate_rows ar reformat rfs csvPath climate unit decimals (raster # rest) (rows, lg)
         = climate_rows ar reformat rfs csvPath climate unit decimals rest (rows, lg @ [(WARNING, msg_skip raster)])"
    by (rule step)
  show "fst (climate_data ar reformat rfs csv_dir csv_file (pre @ raster # post) climate unit decimals)
         = fst (climate_data ar reformat rfs csv_dir csv_file (pre @ post) climate unit decimals)"
    unfolding climate_data_status using mid by (rule conjunct1)
  show "fst (snd (climate_data ar reformat rfs csv_dir csv_file (pre @ raster # post) climate unit decimals))
         = fst (snd (climate_data ar reformat rfs csv_dir csv_file (pre @ post) climate unit decimals))"
    unfolding climate_data_rows using mid by (rule conjunct2)
qed

theorem empty_sample_skipped_witness:
  "fst (snd (climate_data ideal dash_reformat
               [''clipped/prism_ppt_25m_20200101_clip.tif'' \<mapsto> raster_plain,
                ''clipped/prism_ppt_25m_20200102_clip.tif'' \<mapsto> raster_nodata]
               ''out'' ''stats.csv''
               ([''clipped/prism_ppt_25m_20200101_clip.tif''] @ ''clipped/prism_ppt_25m_20200102_clip.tif'' # [])
               ''ppt'' ''mm'' 2))
   = [\<lparr>row_filename = ''prism_ppt_25m_20200101_clip.tif'', row_climate = ''ppt'', row_date = ''2020-01-01'',
       row_min = Fin 10, row_max = Fin 40, row_mean = Fin 25, row_median = Fin 25\<rparr>]"
proof -
  let ?rfs = "[''clipped/prism_ppt_25m_20200101_clip.tif'' \<mapsto> raster_plain,
               ''clipped/prism_ppt_25m_20200102_clip.tif'' \<mapsto> raster_nodata]"
  have a: "?rfs ''clipped/prism_ppt_25m_20200102_clip.tif'' = Some raster_nodata"
    by simp
  have b: "data_series ideal raster_nodata = [] \<or> list_all isnan (data_series ideal raster_nodata)"
    by (simp add: data_series_def raster_nodata_def fne_def isnan_def)
  have c: "fst (snd (climate_data ideal dash_reformat ?rfs ''out'' ''stats.csv''
                       ([''clipped/prism_ppt_25m_20200101_clip.tif''] @ []) ''ppt'' ''mm'' 2))
           = [\<lparr>row_filename = ''prism_ppt_25m_20200101_clip.tif'', row_climate = ''ppt'', row_date = ''2020-01-01'',
               row_min = Fin 10, row_max = Fin 40, row_mean = Fin 25, row_median = Fin 25\<rparr>]"
    by code_simp
  show ?thesis
    using empty_sample_skipped [where rfs = ?rfs and raster = "''clipped/prism_ppt_25m_20200102_clip.tif''"
        and ar = ideal and reformat = dash_reformat and csv_dir = "''out''"
        and csv_file = "''stats.csv''" and pre = "[''clipped/prism_ppt_25m_20200101_clip.tif'']" and post = "[]"
        and climate = "''ppt''" and unit = "''mm''" and decimals = 2, OF a b] c
    by simp
qed

text \<open>The sample of a raster does not depend on its scales and offsets, whatever the arithmetic.\<close>

lemma data_series_ignores_scale: "data_series ar (src\<lparr>scales := sc, offsets := off\<rparr>) = data_series ar src"
  by (simp add: data_series_def Let_def)

lemma data_series_examples:
  "data_series ar raster_scaled = [Fin 1, Fin 2]"
  "data_series ar raster_plain = [Fin 10, Fin 20, Fin 30, Fin 40]"
  by (simp_all add: data_series_def raster_scaled_def raster_plain_def Let_def)

text \<open>
  C2 fails on the code. A raster with scale 2 and the stored cells 1 and 2 has the scaled
  cells 2 and 4, but its sample is 1 and 2, and the row written holds the minimum 1, the
  maximum 2, the mean 1.5 and the median 1.5 of the stored cells.
\<close>

theorem scale_not_applied:
  "fst (snd (climate_data ideal dash_reformat [''clipped/prism_ppt_25m_20200101_clip.tif'' \<mapsto> raster_scaled]
               ''out'' ''stats.csv'' [''clipped/prism_ppt_25m_20200101_clip.tif''] ''ppt'' ''mm'' 2))
   = [\<lparr>row_filename = ''prism_ppt_25m_20200101_clip.tif'', row_climate = ''ppt'', row_date = ''2020-01-01'',
       row_min = Fin 1, row_max = Fin 2, row_mean = Fin (3 / 2), row_median = Fin (3 / 2)\<rparr>]
   \<and> concat (scaled ideal (Fin 2) (Fin 0) (cells raster_scaled)) = [Fin 2, Fin 4]"
  by code_simp

text \<open>
  C3 fails on the code. For the clipped raster \<open>boundary_clip.tif\<close>, which has a valid
  sample and whose name has two fields, the parser raises ValueError; \<open>climate_data\<close>
  raises it again and writes no row.
\<close>

theorem unparseable_name_raises:
  "parse_filename dash_reformat ''boundary_clip.tif'' = (Inl ValueError, [])
   \<and> fst (climate_data ideal dash_reformat [''clipped/boundary_clip.tif'' \<mapsto> raster_plain]
            ''out'' ''stats.csv'' [''clipped/boundary_clip.tif''] ''ppt'' ''mm'' 2) = Some ValueError
   \<and> fst (snd (climate_data ideal dash_reformat [''clipped/boundary_clip.tif'' \<mapsto> raster_plain]
            ''out'' ''stats.csv'' [''clipped/boundary_clip.tif''] ''ppt'' ''mm'' 2)) = []
   \<and> length (split_on CHR ''_'' ''boundary_clip.tif'') = 2"
  by code_simp


section \<open>Properties of the clipping\<close>










end
